theory Spec2Isabelle
  imports Complex_Main "HOL-Library.AList" "HOL-Library.Word"
begin

unbundle bit_operations_syntax

section \<open>Python values\<close>

text \<open>
  The tunnel server is asynchronous Python. Between two \<^verbatim>\<open>await\<close>s a coroutine runs
  without interruption, so every function of the source is cut at its \<^verbatim>\<open>await\<close>s into
  steps on an explicit state, the \<open>world\<close>: the two dictionaries of the registry and the
  heaps of the mutable objects the coroutines share (\<^verbatim>\<open>Tunnel\<close>, \<^verbatim>\<open>asyncio.Future\<close>,
  \<^verbatim>\<open>WebSocket\<close>), each addressed by a number, so that \<^verbatim>\<open>a is b\<close> is equality of
  addresses. A dictionary is an association list in insertion order:
  \<^verbatim>\<open>d[k] = v\<close> is \<^const>\<open>AList.update\<close>, \<^verbatim>\<open>d.pop(k, None)\<close> is \<^const>\<open>AList.delete\<close>,
  \<^verbatim>\<open>d.get(k)\<close> is \<^const>\<open>map_of\<close> and \<^verbatim>\<open>d.values()\<close> is \<open>map snd\<close>.
\<close>

type_synonym byte = "8 word"

text \<open>
  Exceptions are values. \<^verbatim>\<open>except ConnectionError\<close> also catches the subclasses of
  \<^verbatim>\<open>ConnectionError\<close>; \<^verbatim>\<open>except Exception\<close> catches everything but
  \<^verbatim>\<open>asyncio.CancelledError\<close>. \<^verbatim>\<open>TimeoutError\<close> is what \<^verbatim>\<open>asyncio.wait_for\<close> raises; it is
  not a \<^verbatim>\<open>ConnectionError\<close>.
\<close>

datatype exc =
    ConnectionError string
  | BrokenPipeError
  | ConnectionAbortedError
  | ConnectionRefusedError
  | ConnectionResetError
  | TimeoutError
  | CancelledError
  | PermissionError string
  | ValueError string
  | WebSocketDisconnect
  | RuntimeError
  | JSONDecodeError
  | AttributeError
  | TypeError
  | OverflowError
  | BinasciiError
  | UnicodeEncodeError
  | HTTPException int string

fun is_ConnectionError :: "exc \<Rightarrow> bool" where
  "is_ConnectionError (ConnectionError m) = True"
| "is_ConnectionError BrokenPipeError = True"
| "is_ConnectionError ConnectionAbortedError = True"
| "is_ConnectionError ConnectionRefusedError = True"
| "is_ConnectionError ConnectionResetError = True"
| "is_ConnectionError e = False"

fun is_Exception :: "exc \<Rightarrow> bool" where
  "is_Exception CancelledError = False"
| "is_Exception e = True"

text \<open>
  A decoded JSON value, as \<^verbatim>\<open>json.loads\<close> returns it. A float is a real number or one
  of the three values that \<^verbatim>\<open>json.loads\<close> also reads: \<^verbatim>\<open>NaN\<close>, \<^verbatim>\<open>Infinity\<close> and
  \<^verbatim>\<open>-Infinity\<close>.
\<close>

datatype jval =
    JNull
  | JBool bool
  | JInt int
  | JFloat real
  | JNaN
  | JInfinity
  | JNegInfinity
  | JStr string
  | JArr "jval list"
  | JObj "(string \<times> jval) list"

text \<open>Python's truth value of a decoded JSON value (\<^verbatim>\<open>if not x\<close>).\<close>

fun truthy :: "jval \<Rightarrow> bool" where
  "truthy JNull = False"
| "truthy (JBool b) = b"
| "truthy (JInt n) = (n \<noteq> 0)"
| "truthy (JFloat r) = (r \<noteq> 0)"
| "truthy JNaN = True"
| "truthy JInfinity = True"
| "truthy JNegInfinity = True"
| "truthy (JStr s) = (s \<noteq> [])"
| "truthy (JArr xs) = (xs \<noteq> [])"
| "truthy (JObj kvs) = (kvs \<noteq> [])"

text \<open>Lists and dictionaries cannot be dictionary keys: \<^verbatim>\<open>d.get(x)\<close> raises \<^verbatim>\<open>TypeError\<close>.\<close>

fun hashable :: "jval \<Rightarrow> bool" where
  "hashable (JArr xs) = False"
| "hashable (JObj kvs) = False"
| "hashable v = True"

text \<open>
  \<^verbatim>\<open>message.get(key)\<close>: only a JSON object has \<^verbatim>\<open>get\<close>; with a repeated key,
  \<^verbatim>\<open>json.loads\<close> keeps the last value.
\<close>

fun py_get :: "jval \<Rightarrow> string \<Rightarrow> exc + jval option" where
  "py_get (JObj kvs) k = Inr (map_of (rev kvs) k)"
| "py_get v k = Inl AttributeError"

section \<open>Wire frames, futures and sockets\<close>

text \<open>
  The payload of a \<^verbatim>\<open>request\<close> frame (\<^verbatim>\<open>IngressRequest\<close>); \<open>http_method\<close> is the
  source's key \<^verbatim>\<open>method\<close>.
\<close>

record payload =
  correlation_id :: string
  http_method :: string
  path :: string
  query :: "(string \<times> string list) list"
  headers :: "(string \<times> string) list"
  body_b64 :: "string option"

datatype frame = RequestFrame payload | PingFrame real

datatype future_state = FPending | FResult jval | FCancelled

text \<open>
  A \<^verbatim>\<open>WebSocket\<close> as the server sees it: the frames written to it, whether \<^verbatim>\<open>close()\<close>
  has been called on it, and the exception a write raises when the transport is broken
  (set by the network, not by the server).
\<close>

record socket =
  sent :: "frame list"
  closed :: bool
  send_error :: "exc option"

section \<open>The registry (services/registry.py)\<close>

record pending_request =
  future :: nat
  requested_at :: real

record tunnel =
  route :: string
  token :: string
  description :: "string option"
  created_at :: real
  last_seen :: "real option"
  websocket :: "nat option"
  connected :: bool
  pending :: "(string \<times> pending_request) list"

record world =
  route_to_tunnel :: "(string \<times> nat) list"
  token_to_route :: "(string \<times> string) list"
  tunnels :: "nat \<Rightarrow> tunnel"
  next_tunnel :: nat
  futures :: "nat \<Rightarrow> future_state"
  next_future :: nat
  sockets :: "nat \<Rightarrow> socket"
  clock :: real

text \<open>\<^verbatim>\<open>uuid.uuid4().hex\<close>: the 128 bits of the UUID as 32 lower-case hex digits.\<close>

definition hex_digit :: "nat \<Rightarrow> char" where
  "hex_digit n = (if n < 10 then char_of (48 + n) else char_of (87 + n))"

definition uuid4_hex :: "128 word \<Rightarrow> string" where
  "uuid4_hex u = map (\<lambda>i. hex_digit (unat (drop_bit (4 * (31 - i)) u AND 15))) [0..<32]"

definition set_tunnel :: "world \<Rightarrow> nat \<Rightarrow> tunnel \<Rightarrow> world" where
  "set_tunnel w t T = w\<lparr>tunnels := (tunnels w)(t := T)\<rparr>"

text \<open>\<^verbatim>\<open>await websocket.close()\<close>; every caller in the registry swallows its exceptions.\<close>

definition ws_close :: "world \<Rightarrow> nat \<Rightarrow> world" where
  "ws_close w s = w\<lparr>sockets := (sockets w)(s := (sockets w s)\<lparr>closed := True\<rparr>)\<rparr>"

text \<open>\<^verbatim>\<open>await websocket.send_json(frame)\<close>: raises when the transport is broken.\<close>

definition send_json :: "world \<Rightarrow> nat \<Rightarrow> frame \<Rightarrow> exc + world" where
  "send_json w s fr =
     (case send_error (sockets w s) of
        Some e \<Rightarrow> Inl e
      | None \<Rightarrow> Inr (w\<lparr>sockets := (sockets w)(s := (sockets w s)\<lparr>sent := sent (sockets w s) @ [fr]\<rparr>)\<rparr>))"

definition create_tunnel :: "world \<Rightarrow> string \<Rightarrow> string option \<Rightarrow> 128 word \<Rightarrow> exc + (nat \<times> world)" where
  "create_tunnel w r d u =
     (if map_of (route_to_tunnel w) r \<noteq> None then Inl (ValueError ''Route already exists'')
      else
        let tok = uuid4_hex u;
            t = next_tunnel w;
            T = \<lparr>route = r, token = tok, description = d, created_at = clock w,
                 last_seen = None, websocket = None, connected = False, pending = []\<rparr>
        in Inr (t, w\<lparr>tunnels := (tunnels w)(t := T),
                      next_tunnel := Suc t,
                      route_to_tunnel := AList.update r t (route_to_tunnel w),
                      token_to_route := AList.update tok r (token_to_route w)\<rparr>))"

definition get_tunnel :: "world \<Rightarrow> string \<Rightarrow> nat option" where
  "get_tunnel w r = map_of (route_to_tunnel w) r"

definition delete_tunnel :: "world \<Rightarrow> string \<Rightarrow> bool \<times> world" where
  "delete_tunnel w r =
     (case map_of (route_to_tunnel w) r of
        None \<Rightarrow> (False, w)
      | Some t \<Rightarrow>
          let w1 = w\<lparr>route_to_tunnel := AList.delete r (route_to_tunnel w)\<rparr>;
              tok = token (tunnels w t);
              w2 = (if map_of (token_to_route w1) tok \<noteq> None
                    then w1\<lparr>token_to_route := AList.delete tok (token_to_route w1)\<rparr> else w1);
              w3 = (case websocket (tunnels w t) of Some s \<Rightarrow> ws_close w2 s | None \<Rightarrow> w2)
          in (True, w3))"

text \<open>
  The token store (\<^verbatim>\<open>TunnelDBService.validate_token\<close>) is outside the registry; it is a
  parameter, absent (\<open>None\<close>) when the registry is built without one, as \<^verbatim>\<open>main.py\<close> does.
\<close>

record db_token =
  db_route :: string
  is_active :: bool

definition attach_locked :: "world \<Rightarrow> string \<Rightarrow> nat \<Rightarrow> exc + (nat \<times> world)" where
  "attach_locked w tok s =
     (case map_of (token_to_route w) tok of
        None \<Rightarrow> Inl (PermissionError ''Invalid token'')
      | Some r \<Rightarrow>
          if r = [] then Inl (PermissionError ''Invalid token'')
          else
            (case map_of (route_to_tunnel w) r of
               None \<Rightarrow> Inl (PermissionError ''Unknown route'')
             | Some t \<Rightarrow>
                 Inr (t, set_tunnel w t ((tunnels w t)\<lparr>websocket := Some s, connected := True,
                                                     last_seen := Some (clock w)\<rparr>))))"

definition attach_websocket ::
  "(string \<Rightarrow> db_token option) option \<Rightarrow> world \<Rightarrow> string \<Rightarrow> nat \<Rightarrow> exc + (nat \<times> world)" where
  "attach_websocket db w tok s =
     (case db of
        None \<Rightarrow> attach_locked w tok s
      | Some validate_token \<Rightarrow>
          (case validate_token tok of
             None \<Rightarrow> Inl (PermissionError ''Invalid token'')
           | Some dbt \<Rightarrow>
               if \<not> is_active dbt then Inl (PermissionError ''Invalid token'')
               else attach_locked w tok s))"

text \<open>
  \<^verbatim>\<open>for tunnel in self._route_to_tunnel.values(): if tunnel.websocket is websocket: ... break\<close>:
  the first registered tunnel, in insertion order, that holds the socket.
\<close>

definition tunnel_of_socket :: "world \<Rightarrow> nat \<Rightarrow> nat option" where
  "tunnel_of_socket w s =
     List.find (\<lambda>t. websocket (tunnels w t) = Some s) (map snd (route_to_tunnel w))"

definition detach_websocket :: "world \<Rightarrow> nat \<Rightarrow> world" where
  "detach_websocket w s =
     (case tunnel_of_socket w s of
        None \<Rightarrow> w
      | Some t \<Rightarrow> set_tunnel w t ((tunnels w t)\<lparr>websocket := None, connected := False,
                                               last_seen := Some (clock w)\<rparr>))"

text \<open>
  \<^verbatim>\<open>send_ingress_request\<close>, cut at its \<^verbatim>\<open>await\<close>s. First the block under the lock
  (lines 129-145): look the tunnel up, choose the correlation id (the payload's own if it is
  not empty, a new \<^verbatim>\<open>uuid4().hex\<close> otherwise), create the future and store the pending
  entry. It returns the socket, the correlation id, the future and the payload to send.
\<close>

definition ingress_register ::
  "world \<Rightarrow> string \<Rightarrow> payload \<Rightarrow> 128 word \<Rightarrow> exc + (nat \<times> string \<times> nat \<times> payload \<times> world)" where
  "ingress_register w r p u =
     (case map_of (route_to_tunnel w) r of
        None \<Rightarrow> Inl (ConnectionError ''Tunnel not connected'')
      | Some t \<Rightarrow>
          if \<not> connected (tunnels w t) then Inl (ConnectionError ''Tunnel not connected'')
          else
            (case websocket (tunnels w t) of
               None \<Rightarrow> Inl (ConnectionError ''Tunnel not connected'')
             | Some s \<Rightarrow>
                 let cid = (if correlation_id p = [] then uuid4_hex u else correlation_id p);
                     p' = p\<lparr>correlation_id := cid\<rparr>;
                     f = next_future w;
                     T = tunnels w t;
                     w' = w\<lparr>futures := (futures w)(f := FPending), next_future := Suc f,
                            tunnels := (tunnels w)(t := T\<lparr>pending :=
                              AList.update cid \<lparr>future = f, requested_at = clock w\<rparr> (pending T)\<rparr>)\<rparr>
                 in Inr (s, cid, f, p', w')))"

text \<open>
  \<^verbatim>\<open>await asyncio.wait_for(future, timeout)\<close>, seen when the coroutine resumes: the result
  if the future has one; otherwise the timeout has elapsed, \<^verbatim>\<open>wait_for\<close> cancels the
  future and raises \<^verbatim>\<open>TimeoutError\<close>.
\<close>

definition wait_for :: "world \<Rightarrow> nat \<Rightarrow> (exc + jval) \<times> world" where
  "wait_for w f =
     (case futures w f of
        FResult m \<Rightarrow> (Inr m, w)
      | FPending \<Rightarrow> (Inl TimeoutError, w\<lparr>futures := (futures w)(f := FCancelled)\<rparr>)
      | FCancelled \<Rightarrow> (Inl CancelledError, w))"

text \<open>The \<^verbatim>\<open>finally\<close> block (lines 152-156).\<close>

definition ingress_cleanup :: "world \<Rightarrow> string \<Rightarrow> string \<Rightarrow> world" where
  "ingress_cleanup w r cid =
     (case map_of (route_to_tunnel w) r of
        None \<Rightarrow> w
      | Some t \<Rightarrow> set_tunnel w t ((tunnels w t)\<lparr>pending := AList.delete cid (pending (tunnels w t))\<rparr>))"

text \<open>
  The whole coroutine. While it is suspended other coroutines run: \<open>others1\<close> is what they
  do to the world between the write of the frame and the return of \<^verbatim>\<open>wait_for\<close>,
  \<open>others2\<close> what they do before the \<^verbatim>\<open>finally\<close> block gets the lock. The write (line 147)
  stands before the \<^verbatim>\<open>try\<close>: when it raises, the \<^verbatim>\<open>finally\<close> block does not run.
\<close>

definition send_ingress_request ::
  "(world \<Rightarrow> world) \<Rightarrow> (world \<Rightarrow> world) \<Rightarrow> world \<Rightarrow> string \<Rightarrow> payload \<Rightarrow> 128 word
     \<Rightarrow> (exc + jval) \<times> world" where
  "send_ingress_request others1 others2 w r p u =
     (case ingress_register w r p u of
        Inl e \<Rightarrow> (Inl e, w)
      | Inr (s, cid, f, p', w1) \<Rightarrow>
          (case send_json w1 s (RequestFrame p') of
             Inl e \<Rightarrow> (Inl e, w1)
           | Inr w2 \<Rightarrow>
               let (res, w3) = wait_for (others1 w2) f
               in (res, ingress_cleanup (others2 w3) r cid)))"

text \<open>\<^verbatim>\<open>handle_client_message\<close> (lines 158-183); it raises where the Python does.\<close>

definition handle_client_message :: "world \<Rightarrow> nat \<Rightarrow> jval \<Rightarrow> exc + world" where
  "handle_client_message w s message =
     (case py_get message ''type'' of
        Inl e \<Rightarrow> Inl e
      | Inr msg_type \<Rightarrow>
          if msg_type = Some (JStr ''pong'') then
            Inr (case tunnel_of_socket w s of
                   None \<Rightarrow> w
                 | Some t \<Rightarrow> set_tunnel w t ((tunnels w t)\<lparr>last_seen := Some (clock w)\<rparr>))
          else if msg_type \<noteq> Some (JStr ''response'') then Inr w
          else
            (case py_get message ''correlation_id'' of
               Inl e \<Rightarrow> Inl e
             | Inr None \<Rightarrow> Inr w
             | Inr (Some cid) \<Rightarrow>
                 if \<not> truthy cid then Inr w
                 else
                   (case tunnel_of_socket w s of
                      None \<Rightarrow> Inr w
                    | Some t \<Rightarrow>
                        if \<not> hashable cid then Inl TypeError
                        else
                          (case cid of
                             JStr c \<Rightarrow>
                               (case map_of (pending (tunnels w t)) c of
                                  None \<Rightarrow> Inr w
                                | Some pr \<Rightarrow>
                                    if futures w (future pr) = FPending
                                    then Inr (w\<lparr>futures := (futures w)(future pr := FResult message)\<rparr>)
                                    else Inr w)
                           | _ \<Rightarrow> Inr w))))"

text \<open>
  \<^verbatim>\<open>ping_connected\<close> (lines 185-205): the snapshot under the lock, then for each tunnel
  object of the snapshot the write of a \<^verbatim>\<open>ping\<close> and, when it raises, the handler. The
  handler works on the tunnel object of the snapshot, whatever the registry holds by then.
\<close>

definition ping_snapshot :: "world \<Rightarrow> nat list" where
  "ping_snapshot w =
     filter (\<lambda>t. connected (tunnels w t) \<and> websocket (tunnels w t) \<noteq> None)
       (map snd (route_to_tunnel w))"

definition ping_failed :: "world \<Rightarrow> nat \<Rightarrow> world" where
  "ping_failed w t =
     (let w1 = (case websocket (tunnels w t) of Some s \<Rightarrow> ws_close w s | None \<Rightarrow> w)
      in set_tunnel w1 t ((tunnels w1 t)\<lparr>websocket := None, connected := False,
                                          last_seen := Some (clock w1)\<rparr>))"

definition ping_one :: "(world \<Rightarrow> world) \<Rightarrow> world \<Rightarrow> nat \<Rightarrow> exc + world" where
  "ping_one others w t =
     (case websocket (tunnels w t) of
        None \<Rightarrow> Inr (ping_failed (others w) t)
      | Some s \<Rightarrow>
          (case send_json w s (PingFrame (clock w)) of
             Inr w' \<Rightarrow> Inr (others w')
           | Inl e \<Rightarrow> if is_Exception e then Inr (ping_failed (others w) t) else Inl e))"

fun ping_loop :: "(world \<Rightarrow> world) \<Rightarrow> nat list \<Rightarrow> world \<Rightarrow> exc + world" where
  "ping_loop others [] w = Inr w"
| "ping_loop others (t # ts) w =
     (case ping_one others w t of Inl e \<Rightarrow> Inl e | Inr w' \<Rightarrow> ping_loop others ts w')"

definition ping_connected :: "(world \<Rightarrow> world) \<Rightarrow> world \<Rightarrow> exc + world" where
  "ping_connected others w = ping_loop others (ping_snapshot w) w"

section \<open>The receive loop of the WebSocket endpoint (api/v1/tunnels.py)\<close>

text \<open>
  One turn of the loop of \<^verbatim>\<open>tunnel_ws\<close> (lines 103-116): what \<^verbatim>\<open>receive_json\<close> gives is
  a decoded JSON value or an exception (\<^verbatim>\<open>WebSocketDisconnect\<close> when the peer has gone,
  \<^verbatim>\<open>JSONDecodeError\<close> when the text is not JSON). The loop goes on, or the endpoint
  returns after the detach, or the exception leaves it.
\<close>

datatype received = RecvJson jval | RecvRaise exc

datatype loop_result = Continue | Returned | Raised exc

definition ws_loop_except :: "world \<Rightarrow> nat \<Rightarrow> exc \<Rightarrow> loop_result \<times> world" where
  "ws_loop_except w s e =
     (if e = WebSocketDisconnect then (Returned, detach_websocket w s)
      else if is_Exception e then (Returned, ws_close (detach_websocket w s) s)
      else (Raised e, w))"

definition tunnel_ws_step :: "world \<Rightarrow> nat \<Rightarrow> received \<Rightarrow> loop_result \<times> world" where
  "tunnel_ws_step w s r =
     (case r of
        RecvRaise e \<Rightarrow> ws_loop_except w s e
      | RecvJson message \<Rightarrow>
          (case handle_client_message w s message of
             Inr w' \<Rightarrow> (Continue, w')
           | Inl e \<Rightarrow> ws_loop_except w s e))"

section \<open>Base64 (Python's base64 module)\<close>

text \<open>
  \<^verbatim>\<open>base64.b64encode\<close>: three bytes give four characters of the standard alphabet; one or
  two bytes left over are padded with \<^verbatim>\<open>=\<close>.
\<close>

definition b64_char :: "nat \<Rightarrow> char" where
  "b64_char n =
     (if n < 26 then char_of (65 + n)
      else if n < 52 then char_of (97 + (n - 26))
      else if n < 62 then char_of (48 + (n - 52))
      else if n = 62 then CHR ''+''
      else CHR ''/'')"

fun b64encode :: "byte list \<Rightarrow> string" where
  "b64encode [] = []"
| "b64encode [a] =
     [b64_char (unat a div 4), b64_char (unat a mod 4 * 16), CHR ''='', CHR ''='']"
| "b64encode [a, b] =
     [b64_char (unat a div 4), b64_char (unat a mod 4 * 16 + unat b div 16),
      b64_char (unat b mod 16 * 4), CHR ''='']"
| "b64encode (a # b # c # bs) =
     [b64_char (unat a div 4), b64_char (unat a mod 4 * 16 + unat b div 16),
      b64_char (unat b mod 16 * 4 + unat c div 64), b64_char (unat c mod 64)] @ b64encode bs"

text \<open>The value of a character of the alphabet; \<open>None\<close> for every other character.\<close>

definition b64_value :: "char \<Rightarrow> nat option" where
  "b64_value c =
     (let n = (of_char c :: nat) in
      if 65 \<le> n \<and> n \<le> 90 then Some (n - 65)
      else if 97 \<le> n \<and> n \<le> 122 then Some (n - 97 + 26)
      else if 48 \<le> n \<and> n \<le> 57 then Some (n - 48 + 52)
      else if c = CHR ''+'' then Some 62
      else if c = CHR ''/'' then Some 63
      else None)"

text \<open>
  \<^verbatim>\<open>base64.b64decode(s)\<close> with its default \<^verbatim>\<open>validate=False\<close> is
  \<^verbatim>\<open>binascii.a2b_base64\<close>: characters outside the alphabet are skipped; the state is the
  position in the group of four, the bits left over from the previous character and the
  number of padding characters seen; a complete padding ends the decoding; input that ends
  inside a group raises \<^verbatim>\<open>binascii.Error\<close>. The left-over bits and the bits of the next
  character never overlap, so their bitwise \<^verbatim>\<open>|\<close> is a sum.
\<close>

fun a2b_base64 :: "nat \<Rightarrow> nat \<Rightarrow> nat \<Rightarrow> byte list \<Rightarrow> string \<Rightarrow> exc + byte list" where
  "a2b_base64 quad_pos leftchar pads out [] =
     (if quad_pos \<noteq> 0 then Inl BinasciiError else Inr out)"
| "a2b_base64 quad_pos leftchar pads out (c # cs) =
     (if c = CHR ''='' then
        (if quad_pos \<ge> 2 then
           (if quad_pos + (pads + 1) \<ge> 4 then Inr out
            else a2b_base64 quad_pos leftchar (pads + 1) out cs)
         else a2b_base64 quad_pos leftchar pads out cs)
      else
        (case b64_value c of
           None \<Rightarrow> a2b_base64 quad_pos leftchar pads out cs
         | Some v \<Rightarrow>
             if quad_pos = 0 then a2b_base64 1 v 0 out cs
             else if quad_pos = 1 then
               a2b_base64 2 (v mod 16) 0 (out @ [of_nat (leftchar * 4 + v div 16)]) cs
             else if quad_pos = 2 then
               a2b_base64 3 (v mod 4) 0 (out @ [of_nat (leftchar * 16 + v div 4)]) cs
             else a2b_base64 0 0 0 (out @ [of_nat (leftchar * 64 + v)]) cs))"

text \<open>\<^verbatim>\<open>base64.b64decode(s.encode("ascii"))\<close> on a string.\<close>

definition b64decode :: "string \<Rightarrow> exc + byte list" where
  "b64decode s =
     (if list_ex (\<lambda>c. (of_char c :: nat) \<ge> 128) s then Inl UnicodeEncodeError
      else a2b_base64 0 0 0 [] s)"

section \<open>The ingress forwarder (services/tunnel_service.py)\<close>

text \<open>
  \<^verbatim>\<open>str.lower()\<close> on a header name. Starlette decodes header names as Latin-1, one
  character for a byte; in that range the upper-case letters are A-Z and the accented
  capitals \<^verbatim>\<open>0xC0\<close>-\<^verbatim>\<open>0xDE\<close> without the multiplication sign \<^verbatim>\<open>0xD7\<close>.
\<close>

definition lower_char :: "char \<Rightarrow> char" where
  "lower_char c =
     (let n = (of_char c :: nat) in
      if (65 \<le> n \<and> n \<le> 90) \<or> (192 \<le> n \<and> n \<le> 222 \<and> n \<noteq> 215) then char_of (n + 32) else c)"

definition lower :: "string \<Rightarrow> string" where
  "lower s = map lower_char s"

text \<open>
  The public request as \<^verbatim>\<open>forward_request\<close> reads it: \<open>req_method\<close> is
  \<^verbatim>\<open>request.method\<close>, \<open>req_headers\<close> is \<^verbatim>\<open>request.headers.items()\<close> (one pair for each header
  line, in order), \<open>req_query\<close> is \<^verbatim>\<open>request.query_params.multi_items()\<close> and \<open>req_body\<close> is
  \<^verbatim>\<open>await request.body()\<close>.
\<close>

record request =
  req_method :: string
  req_headers :: "(string \<times> string) list"
  req_query :: "(string \<times> string) list"
  req_body :: "byte list"

text \<open>The dictionary comprehension of lines 160-164: a later header of the same name overwrites.\<close>

definition wire_headers :: "(string \<times> string) list \<Rightarrow> (string \<times> string) list" where
  "wire_headers items = foldl (\<lambda>d (k, v). AList.update (lower k) v d) [] items"

text \<open>Lines 166-168: \<^verbatim>\<open>query_params.setdefault(key, []).append(value)\<close>.\<close>

definition wire_query :: "(string \<times> string) list \<Rightarrow> (string \<times> string list) list" where
  "wire_query items =
     foldl (\<lambda>d (k, v). AList.update k ((case map_of d k of None \<Rightarrow> [] | Some vs \<Rightarrow> vs) @ [v]) d)
       [] items"

text \<open>The payload of lines 170-177.\<close>

definition build_payload :: "request \<Rightarrow> string \<Rightarrow> payload" where
  "build_payload req rest_of_path =
     \<lparr>correlation_id = [],
      http_method = req_method req,
      path = (if rest_of_path \<noteq> [] then ''/'' @ rest_of_path else ''/''),
      query = wire_query (req_query req),
      headers = wire_headers (req_headers req),
      body_b64 = (if req_body req \<noteq> [] then Some (b64encode (req_body req)) else None)\<rparr>"

text \<open>
  Python's \<^verbatim>\<open>int(x)\<close> on a decoded JSON value. A string is stripped of white space and
  read as an optional sign and decimal digits, single underscores allowed between digits,
  and refused when it has more than 4300 digits (the default of
  \<^verbatim>\<open>sys.set_int_max_str_digits\<close>). The white space of \<^verbatim>\<open>int\<close> is that of C (tab to
  carriage return, and the space) and the two Latin-1 spaces \<^verbatim>\<open>0x85\<close> and \<^verbatim>\<open>0xA0\<close>; the
  separators \<^verbatim>\<open>0x1C\<close>-\<^verbatim>\<open>0x1F\<close>, which \<^verbatim>\<open>str.strip\<close> removes, are not. A float is
  truncated towards zero; an infinity raises \<^verbatim>\<open>OverflowError\<close> and \<^verbatim>\<open>NaN\<close> raises
  \<^verbatim>\<open>ValueError\<close>.
\<close>

definition is_space :: "char \<Rightarrow> bool" where
  "is_space c =
     (let n = (of_char c :: nat) in (9 \<le> n \<and> n \<le> 13) \<or> n = 32 \<or> n = 133 \<or> n = 160)"

definition strip :: "string \<Rightarrow> string" where
  "strip s = rev (dropWhile is_space (rev (dropWhile is_space s)))"

definition is_digit :: "char \<Rightarrow> bool" where
  "is_digit c = (48 \<le> (of_char c :: nat) \<and> (of_char c :: nat) \<le> 57)"

fun digits_value :: "int \<Rightarrow> bool \<Rightarrow> string \<Rightarrow> int option" where
  "digits_value acc after_digit [] = (if after_digit then Some acc else None)"
| "digits_value acc after_digit (c # cs) =
     (if is_digit c then digits_value (acc * 10 + (of_char c - 48)) True cs
      else if c = CHR ''_'' \<and> after_digit then digits_value acc False cs
      else None)"

definition int_of_str :: "string \<Rightarrow> int option" where
  "int_of_str s =
     (if length (filter is_digit s) > 4300 then None
      else
        (case strip s of
           [] \<Rightarrow> None
         | c # cs \<Rightarrow>
             if c = CHR ''-'' then map_option uminus (digits_value 0 False cs)
             else if c = CHR ''+'' then digits_value 0 False cs
             else digits_value 0 False (c # cs)))"

fun py_int :: "jval \<Rightarrow> exc + int" where
  "py_int JNull = Inl TypeError"
| "py_int (JBool b) = Inr (if b then 1 else 0)"
| "py_int (JInt n) = Inr n"
| "py_int (JFloat r) = Inr (if r \<ge> 0 then \<lfloor>r\<rfloor> else \<lceil>r\<rceil>)"
| "py_int JNaN = Inl (ValueError ''cannot convert float NaN to integer'')"
| "py_int JInfinity = Inl OverflowError"
| "py_int JNegInfinity = Inl OverflowError"
| "py_int (JStr s) =
     (case int_of_str s of None \<Rightarrow> Inl (ValueError ''invalid literal for int()'') | Some n \<Rightarrow> Inr n)"
| "py_int (JArr xs) = Inl TypeError"
| "py_int (JObj kvs) = Inl TypeError"

text \<open>The \<^verbatim>\<open>Response\<close> that \<^verbatim>\<open>forward_request\<close> returns.\<close>

record response =
  status_code :: int
  resp_headers :: "(string \<times> string) list"
  content :: "byte list"

text \<open>
  \<^verbatim>\<open>body_b64.encode("ascii")\<close> exists for a string only; a header value that is not a
  string has no \<^verbatim>\<open>encode\<close> either when \<^verbatim>\<open>Response\<close> builds its header list.
\<close>

fun decode_body :: "jval option \<Rightarrow> exc + byte list" where
  "decode_body None = Inr []"
| "decode_body (Some v) =
     (if \<not> truthy v then Inr []
      else (case v of JStr s \<Rightarrow> b64decode s | _ \<Rightarrow> Inl AttributeError))"

fun str_of :: "jval \<Rightarrow> string option" where
  "str_of (JStr s) = Some s"
| "str_of v = None"

fun header_dict :: "jval option \<Rightarrow> exc + (string \<times> string) list" where
  "header_dict None = Inr []"
| "header_dict (Some v) =
     (if \<not> truthy v then Inr []
      else
        (case v of
           JObj kvs \<Rightarrow>
             if list_all (\<lambda>(k, x). str_of x \<noteq> None) kvs
             then Inr (foldl (\<lambda>d (k, x). AList.update k (the (str_of x)) d) [] kvs)
             else Inl AttributeError
         | _ \<Rightarrow> Inl AttributeError))"

text \<open>Lines 189-194: the response frame rendered as the public response.\<close>

definition render_response :: "jval \<Rightarrow> exc + response" where
  "render_response resp =
     (case py_get resp ''status_code'' of
        Inl e \<Rightarrow> Inl e
      | Inr sc \<Rightarrow>
          (case py_int (case sc of None \<Rightarrow> JInt 502 | Some v \<Rightarrow> v) of
             Inl e \<Rightarrow> Inl e
           | Inr st \<Rightarrow>
               (case py_get resp ''headers'' of
                  Inl e \<Rightarrow> Inl e
                | Inr h \<Rightarrow>
                    (case py_get resp ''body_b64'' of
                       Inl e \<Rightarrow> Inl e
                     | Inr b \<Rightarrow>
                         (case decode_body b of
                            Inl e \<Rightarrow> Inl e
                          | Inr body \<Rightarrow>
                              (case header_dict h of
                                 Inl e \<Rightarrow> Inl e
                               | Inr hs \<Rightarrow>
                                   Inr \<lparr>status_code = st, resp_headers = hs, content = body\<rparr>))))))"

text \<open>
  \<^verbatim>\<open>forward_request\<close> (lines 152-194). Only a \<^verbatim>\<open>ConnectionError\<close> of
  \<^verbatim>\<open>send_ingress_request\<close> is caught and turned into \<^verbatim>\<open>HTTPException(502)\<close>; any other
  exception leaves the function as it is. \<open>u\<close> is the UUID that \<^verbatim>\<open>uuid.uuid4()\<close> draws.
\<close>

definition forward_request ::
  "(world \<Rightarrow> world) \<Rightarrow> (world \<Rightarrow> world) \<Rightarrow> world \<Rightarrow> request \<Rightarrow> string \<Rightarrow> string \<Rightarrow> 128 word
     \<Rightarrow> (exc + response) \<times> world" where
  "forward_request others1 others2 w req r rest_of_path u =
     (case send_ingress_request others1 others2 w r (build_payload req rest_of_path) u of
        (Inl e, w') \<Rightarrow>
          if is_ConnectionError e then (Inl (HTTPException 502 ''Tunnel not connected''), w')
          else (Inl e, w')
      | (Inr resp, w') \<Rightarrow> (render_response resp, w'))"

section \<open>The reply to an HTTPException (main.py and FastAPI)\<close>

text \<open>
  \<^verbatim>\<open>create_app\<close> (main.py, lines 44-45) registers exception handlers for
  \<^verbatim>\<open>RequestValidationError\<close> and \<^verbatim>\<open>ValidationError\<close> only, so an \<^verbatim>\<open>HTTPException\<close> that
  \<^verbatim>\<open>forward_request\<close> raises is answered by the handler FastAPI installs by itself:
  \<^verbatim>\<open>JSONResponse({"detail": exc.detail}, status_code=exc.status_code)\<close>, or an empty
  \<^verbatim>\<open>Response\<close> for a status that allows no body. The body of a \<^verbatim>\<open>JSONResponse\<close> is
  \<^verbatim>\<open>json.dumps(content, ensure_ascii=False, separators=(",", ":")).encode("utf-8")\<close> and
  its content type is \<^verbatim>\<open>application/json\<close>.
\<close>

record http_reply =
  reply_status :: int
  reply_content_type :: "string option"
  reply_body :: "byte list"

text \<open>
  A string as \<^verbatim>\<open>json.dumps\<close> writes it: the double quote (\<^verbatim>\<open>0x22\<close>), the backslash
  (\<^verbatim>\<open>0x5C\<close>) and the control characters are escaped, nothing else.
\<close>

definition json_escape :: "char \<Rightarrow> string" where
  "json_escape c =
     (let n = (of_char c :: nat) in
      if n = 34 then [CHR 0x5C, CHR 0x22]
      else if n = 92 then [CHR 0x5C, CHR 0x5C]
      else if n = 10 then [CHR 0x5C, CHR ''n'']
      else if n = 13 then [CHR 0x5C, CHR ''r'']
      else if n = 9 then [CHR 0x5C, CHR ''t'']
      else if n = 8 then [CHR 0x5C, CHR ''b'']
      else if n = 12 then [CHR 0x5C, CHR ''f'']
      else if n < 32 then
        [CHR 0x5C, CHR ''u'', CHR ''0'', CHR ''0'', hex_digit (n div 16), hex_digit (n mod 16)]
      else [c])"

definition json_string :: "string \<Rightarrow> string" where
  "json_string s = [CHR 0x22] @ concat (map json_escape s) @ [CHR 0x22]"

text \<open>\<^verbatim>\<open>str.encode("utf-8")\<close> on a string of Latin-1 characters.\<close>

definition utf8 :: "string \<Rightarrow> byte list" where
  "utf8 s = concat (map (\<lambda>c. let n = (of_char c :: nat) in
                         if n < 128 then [of_nat n]
                         else [of_nat (192 + n div 64), of_nat (128 + n mod 64)]) s)"

definition http_exception_handler :: "int \<Rightarrow> string \<Rightarrow> http_reply" where
  "http_exception_handler st detail =
     (if st < 200 \<or> st = 204 \<or> st = 205 \<or> st = 304
      then \<lparr>reply_status = st, reply_content_type = None, reply_body = []\<rparr>
      else \<lparr>reply_status = st, reply_content_type = Some ''application/json'',
             reply_body = utf8 (''{'' @ json_string ''detail'' @ '':'' @ json_string detail @ ''}'')\<rparr>)"

text \<open>
  The reply the public caller gets when the outcome of \<^verbatim>\<open>forward_request\<close> is an
  \<^verbatim>\<open>HTTPException\<close>; \<open>None\<close> for any other outcome.
\<close>

definition http_exception_reply :: "exc + response \<Rightarrow> http_reply option" where
  "http_exception_reply res =
     (case res of
        Inl (HTTPException st detail) \<Rightarrow> Some (http_exception_handler st detail)
      | _ \<Rightarrow> None)"

section \<open>The tunnel client (client/cli.py)\<close>

text \<open>
  The local HTTP server behind the client is a parameter: from the method, the URL, the
  query parameters, the headers and the body it gives a response, or fails, and then the
  client gets the text of the exception (as UTF-8 bytes).
\<close>

record local_response =
  l_status :: int
  l_headers :: "(string \<times> string) list"
  l_content :: "byte list"

type_synonym local_server =
  "string \<Rightarrow> string \<Rightarrow> (string \<times> string) list \<Rightarrow> (string \<times> string) list \<Rightarrow> byte list option
     \<Rightarrow> byte list + local_response"

definition rstrip_slash :: "string \<Rightarrow> string" where
  "rstrip_slash s = rev (dropWhile (\<lambda>c. c = CHR ''/'') (rev s))"

definition client_body :: "string option \<Rightarrow> exc + byte list option" where
  "client_body b =
     (case b of
        None \<Rightarrow> Inr None
      | Some s \<Rightarrow> if s = [] then Inr None else map_sum id Some (b64decode s))"

definition encode_content :: "byte list \<Rightarrow> jval" where
  "encode_content bs = (if bs \<noteq> [] then JStr (b64encode bs) else JNull)"

text \<open>
  \<^verbatim>\<open>forward_request_to_local\<close> (lines 89-133) on a request frame, followed by the two
  assignments of \<^verbatim>\<open>run_connector\<close> (lines 164-165) that make the reply a \<^verbatim>\<open>response\<close>
  frame with the correlation id of the request.
\<close>

text \<open>Lines 110-112: the client removes \<^verbatim>\<open>host\<close> and \<^verbatim>\<open>connection\<close>, and nothing else.\<close>

definition local_headers :: "payload \<Rightarrow> (string \<times> string) list" where
  "local_headers p = AList.delete ''connection'' (AList.delete ''host'' (headers p))"

definition forward_request_to_local :: "local_server \<Rightarrow> string \<Rightarrow> payload \<Rightarrow> exc + (string \<times> jval) list" where
  "forward_request_to_local server local_base p =
     (case client_body (body_b64 p) of
        Inl e \<Rightarrow> Inl e
      | Inr body \<Rightarrow>
          let url = rstrip_slash local_base @ path p;
              params = concat (map (\<lambda>(k, vs). map (\<lambda>v. (k, v)) vs) (query p));
              hs = local_headers p
          in (case server (http_method p) url params hs body of
                Inl msg \<Rightarrow>
                  Inr [(''status_code'', JInt 502),
                       (''headers'', JObj [(''content-type'', JStr ''text/plain'')]),
                       (''body_b64'', JStr (b64encode msg))]
              | Inr resp \<Rightarrow>
                  Inr [(''status_code'', JInt (l_status resp)),
                       (''headers'', JObj (map (\<lambda>(k, v). (k, JStr v))
                                              (foldl (\<lambda>d (k, v). AList.update k v d) [] (l_headers resp)))),
                       (''body_b64'', encode_content (l_content resp))]))"

definition connector_reply :: "local_server \<Rightarrow> string \<Rightarrow> payload \<Rightarrow> exc + jval" where
  "connector_reply server local_base p =
     (case forward_request_to_local server local_base p of
        Inl e \<Rightarrow> Inl e
      | Inr resp_payload \<Rightarrow>
          Inr (JObj (AList.update ''correlation_id'' (JStr (correlation_id p))
                      (AList.update ''type'' (JStr ''response'') resp_payload))))"

text \<open>A local server that echoes: status 200 and the body of the request as its own.\<close>

definition echo_server :: "(string \<times> string) list \<Rightarrow> local_server" where
  "echo_server hs m url params hdrs body =
     Inr \<lparr>l_status = 200, l_headers = hs, l_content = (case body of None \<Rightarrow> [] | Some bs \<Rightarrow> bs)\<rparr>"

section \<open>Invariants of the registry and its reachable states\<close>

text \<open>
  A session is consistent when exactly one of \<open>connected \<and> websocket \<noteq> None\<close> and
  \<open>\<not> connected \<and> websocket = None\<close> holds. The registry is consistent when no route is
  a key of \<open>route_to_tunnel\<close> twice and every registered tunnel object is consistent.
\<close>

definition session_ok :: "tunnel \<Rightarrow> bool" where
  "session_ok T =
     ((connected T \<and> websocket T \<noteq> None) \<noteq> (\<not> connected T \<and> websocket T = None))"

definition registry_inv :: "world \<Rightarrow> bool" where
  "registry_inv w =
     (distinct (map fst (route_to_tunnel w)) \<and>
      list_all (\<lambda>t. session_ok (tunnels w t)) (map snd (route_to_tunnel w)))"

text \<open>Every registered tunnel object has been allocated: \<^verbatim>\<open>Tunnel(...)\<close> gives a new object.\<close>

definition alloc_ok :: "world \<Rightarrow> bool" where
  "alloc_ok w = list_all (\<lambda>t. t < next_tunnel w) (map snd (route_to_tunnel w))"

definition inv2 :: "world \<Rightarrow> bool" where
  "inv2 w = (registry_inv w \<and> alloc_ok w)"

text \<open>
  The states the server can be in: it starts with an empty registry
  (\<^verbatim>\<open>TunnelRegistry()\<close>), and every step between two \<^verbatim>\<open>await\<close>s of a registry operation
  leads from a state to the next, in any interleaving. \<open>ping_failure\<close> is the handler of
  \<^verbatim>\<open>ping_connected\<close> on any tunnel object, registered or not; \<open>network\<close> is what the
  outside does: time passes and transports break.
\<close>

inductive reachable :: "world \<Rightarrow> bool" where
  start: "route_to_tunnel w = [] \<Longrightarrow> token_to_route w = [] \<Longrightarrow> reachable w"
| create: "reachable w \<Longrightarrow> create_tunnel w r d u = Inr (t, w') \<Longrightarrow> reachable w'"
| delete: "reachable w \<Longrightarrow> reachable (snd (delete_tunnel w r))"
| attach: "reachable w \<Longrightarrow> attach_websocket db w tok s = Inr (t, w') \<Longrightarrow> reachable w'"
| detach: "reachable w \<Longrightarrow> reachable (detach_websocket w s)"
| register: "reachable w \<Longrightarrow> ingress_register w r p u = Inr (s, cid, f, p', w') \<Longrightarrow> reachable w'"
| written: "reachable w \<Longrightarrow> send_json w s fr = Inr w' \<Longrightarrow> reachable w'"
| woken: "reachable w \<Longrightarrow> reachable (snd (wait_for w f))"
| cleanup: "reachable w \<Longrightarrow> reachable (ingress_cleanup w r cid)"
| message: "reachable w \<Longrightarrow> handle_client_message w s m = Inr w' \<Longrightarrow> reachable w'"
| ping_failure: "reachable w \<Longrightarrow> reachable (ping_failed w t)"
| closed_socket: "reachable w \<Longrightarrow> reachable (ws_close w s)"
| network: "reachable w \<Longrightarrow> reachable (w\<lparr>sockets := so, clock := c\<rparr>)"

section \<open>States and scenarios of the properties\<close>

text \<open>
  \<open>world0\<close> is the server after start. In \<open>world_live\<close> the route \<^verbatim>\<open>svc\<close> is attached to
  socket 5 and one public request is in flight: its correlation id is in the pending table
  and its future has no result yet.
\<close>

definition idle_tunnel :: tunnel where
  "idle_tunnel = \<lparr>route = [], token = [], description = None, created_at = 0,
                   last_seen = None, websocket = None, connected = False, pending = []\<rparr>"

definition fresh_socket :: socket where
  "fresh_socket = \<lparr>sent = [], closed = False, send_error = None\<rparr>"

definition world0 :: world where
  "world0 = \<lparr>route_to_tunnel = [], token_to_route = [], tunnels = (\<lambda>t. idle_tunnel),
             next_tunnel = 0, futures = (\<lambda>f. FPending), next_future = 0,
             sockets = (\<lambda>s. fresh_socket), clock = 0\<rparr>"

definition svc_token :: string where
  "svc_token = ''3f2b8c1e9d4a4f6b8a7c5e2d1f0a9b8c''"

definition cid1 :: string where
  "cid1 = ''7e1c0a9b8d2f4c3a9b6e0f1d2c3b4a59''"

definition live_tunnel :: tunnel where
  "live_tunnel = \<lparr>route = ''svc'', token = svc_token, description = None, created_at = 0,
                   last_seen = Some 0, websocket = Some 5, connected = True,
                   pending = [(cid1, \<lparr>future = 0, requested_at = 0\<rparr>)]\<rparr>"

definition world_live :: world where
  "world_live = \<lparr>route_to_tunnel = [(''svc'', 0)], token_to_route = [(svc_token, ''svc'')],
                 tunnels = (\<lambda>t. idle_tunnel)(0 := live_tunnel),
                 next_tunnel = 1, futures = (\<lambda>f. FPending), next_future = 1,
                 sockets = (\<lambda>s. fresh_socket), clock = 0\<rparr>"

text \<open>The two states before \<open>world_live\<close>: the route created, then socket 5 attached.\<close>

definition world_svc :: world where
  "world_svc = \<lparr>route_to_tunnel = [(''svc'', 0)], token_to_route = [(svc_token, ''svc'')],
                tunnels = (\<lambda>t. idle_tunnel)(0 := live_tunnel\<lparr>last_seen := None,
                  websocket := None, connected := False, pending := []\<rparr>),
                next_tunnel = 1, futures = (\<lambda>f. FPending), next_future = 0,
                sockets = (\<lambda>s. fresh_socket), clock = 0\<rparr>"

definition world_attached :: world where
  "world_attached = world_svc\<lparr>tunnels := (\<lambda>t. idle_tunnel)(0 := live_tunnel\<lparr>pending := []\<rparr>)\<rparr>"

definition get_root :: request where
  "get_root = \<lparr>req_method = ''GET'', req_headers = [], req_query = [], req_body = []\<rparr>"

text \<open>A route is attached when it has a session whose \<open>connected\<close> flag is set.\<close>

definition attached :: "world \<Rightarrow> string \<Rightarrow> bool" where
  "attached w r =
     (case get_tunnel w r of None \<Rightarrow> False | Some t \<Rightarrow> connected (tunnels w t))"

text \<open>
  States after \<open>world_live\<close>: the request frame written to socket 5 (\<open>world_written\<close>);
  the request timed out and cleaned up (\<open>world_timed_out\<close>); a second client attached with
  the same token on socket 6 (\<open>world_reattached\<close>). In \<open>world_broken\<close> the route is attached
  but the transport of socket 5 is gone, so that a write raises; \<open>world_leaked\<close> is that
  state after an ingress request has been registered.
\<close>

definition world_written :: world where
  "world_written = world_live\<lparr>sockets := (\<lambda>s. fresh_socket)
      (5 := fresh_socket\<lparr>sent := [RequestFrame ((build_payload get_root [])\<lparr>correlation_id := cid1\<rparr>)]\<rparr>)\<rparr>"

definition world_timed_out :: world where
  "world_timed_out =
     ingress_cleanup (world_written\<lparr>futures := (\<lambda>f. FPending)(0 := FCancelled)\<rparr>) ''svc'' cid1"

definition world_reattached :: world where
  "world_reattached =
     world_live\<lparr>tunnels := (\<lambda>t. idle_tunnel)(0 := live_tunnel\<lparr>websocket := Some 6\<rparr>)\<rparr>"

definition world_broken :: world where
  "world_broken = world_attached\<lparr>sockets := (\<lambda>s. fresh_socket)
      (5 := fresh_socket\<lparr>send_error := Some WebSocketDisconnect\<rparr>)\<rparr>"

definition world_leaked :: world where
  "world_leaked = world_live\<lparr>sockets := (\<lambda>s. fresh_socket)
      (5 := fresh_socket\<lparr>send_error := Some WebSocketDisconnect\<rparr>)\<rparr>"

text \<open>A \<^verbatim>\<open>response\<close> frame for a correlation id, as a client sends it.\<close>

definition late_response :: "string \<Rightarrow> jval" where
  "late_response cid = JObj [(''type'', JStr ''response''), (''correlation_id'', JStr cid),
     (''status_code'', JInt 200), (''headers'', JObj []), (''body_b64'', JNull)]"

text \<open>
  What the other coroutines do while \<^verbatim>\<open>forward_request\<close> waits, when the tunnel client
  behind socket \<open>s\<close> answers: the client takes the last frame written to the socket,
  computes its reply from the local server (\<^verbatim>\<open>run_connector\<close>), and the receive loop of
  the server hands the reply to \<^verbatim>\<open>handle_client_message\<close>.
\<close>

definition client_answers :: "local_server \<Rightarrow> string \<Rightarrow> nat \<Rightarrow> world \<Rightarrow> world" where
  "client_answers server local_base s w =
     (case rev (sent (sockets w s)) of
        RequestFrame p # frs \<Rightarrow>
          (case connector_reply server local_base p of
             Inr m \<Rightarrow> (case handle_client_message w s m of Inr w' \<Rightarrow> w' | Inl e \<Rightarrow> w)
           | Inl e \<Rightarrow> w)
      | _ \<Rightarrow> w)"

text \<open>The \<^verbatim>\<open>response\<close> frame of the client in front of an echoing local server.\<close>

definition echo_reply :: "(string \<times> string) list \<Rightarrow> string \<Rightarrow> byte list \<Rightarrow> jval" where
  "echo_reply hs cid body =
     JObj [(''status_code'', JInt 200),
           (''headers'', JObj (map (\<lambda>(k, v). (k, JStr v))
                                  (foldl (\<lambda>d (k, v). AList.update k v d) [] hs))),
           (''body_b64'', encode_content body),
           (''type'', JStr ''response''),
           (''correlation_id'', JStr cid)]"

text \<open>Two public requests: a binary upload, and a request with edge and hop-by-hop headers.\<close>

definition post_bin :: request where
  "post_bin = \<lparr>req_method = ''POST'',
     req_headers = [(''Content-Type'', ''application/octet-stream'')],
     req_query = [], req_body = [0, 1, 127, 128, 255]\<rparr>"

definition req_hop :: request where
  "req_hop = \<lparr>req_method = ''GET'',
     req_headers = [(''Host'', ''svc.example.com''), (''Connection'', ''keep-alive''),
                    (''Transfer-Encoding'', ''chunked''), (''Accept'', ''text/plain'')],
     req_query = [], req_body = []\<rparr>"

section \<open>Properties\<close>

subsection \<open>The registry invariant\<close>

lemma set_update_subset: "set (AList.update k v al) \<subseteq> insert (k, v) (set al)"
  by (induction al) auto

lemma set_delete_subset: "set (AList.delete k al) \<subseteq> set al"
  by (induction al) auto

lemma inv2_alt:
  "inv2 w = (distinct (map fst (route_to_tunnel w)) \<and>
     (\<forall>x \<in> set (route_to_tunnel w). session_ok (tunnels w (snd x)) \<and> snd x < next_tunnel w))"
  by (auto simp: inv2_def registry_inv_def alloc_ok_def list_all_iff)

lemma inv2_set_tunnel: "inv2 w \<Longrightarrow> session_ok T \<Longrightarrow> inv2 (set_tunnel w t T)"
  by (auto simp: inv2_alt set_tunnel_def)

lemma inv2_fields:
  "inv2 w \<Longrightarrow> route_to_tunnel w' = route_to_tunnel w \<Longrightarrow> next_tunnel w \<le> next_tunnel w'
     \<Longrightarrow> (\<And>t. connected (tunnels w' t) = connected (tunnels w t) \<and>
              websocket (tunnels w' t) = websocket (tunnels w t))
     \<Longrightarrow> inv2 w'"
  by (fastforce simp: inv2_alt session_ok_def)

lemma inv2_start: "route_to_tunnel w = [] \<Longrightarrow> inv2 w"
  by (simp add: inv2_alt)

lemma inv2_create:
  assumes "inv2 w" and "create_tunnel w r d u = Inr (t, w')"
  shows "inv2 w'"
proof -
  let ?T = "\<lparr>route = r, token = uuid4_hex u, description = d, created_at = clock w,
             last_seen = None, websocket = None, connected = False, pending = []\<rparr>"
  from assms(2) have w': "route_to_tunnel w' = AList.update r (next_tunnel w) (route_to_tunnel w)"
    "tunnels w' = (tunnels w)(next_tunnel w := ?T)" "next_tunnel w' = Suc (next_tunnel w)"
    by (auto simp: create_tunnel_def Let_def split: if_splits)
  have ok: "session_ok ?T" by (simp add: session_ok_def)
  from assms(1) have d: "distinct (map fst (route_to_tunnel w))"
    and old: "\<And>x. x \<in> set (route_to_tunnel w) \<Longrightarrow>
                session_ok (tunnels w (snd x)) \<and> snd x < next_tunnel w"
    by (auto simp: inv2_alt)
  have "session_ok (tunnels w' (snd x)) \<and> snd x < next_tunnel w'"
    if "x \<in> set (route_to_tunnel w')" for x
  proof -
    from that w'(1) set_update_subset
    have "x = (r, next_tunnel w) \<or> x \<in> set (route_to_tunnel w)"
      by fastforce
    then show ?thesis
    proof
      assume "x = (r, next_tunnel w)"
      then show ?thesis using ok by (simp add: w')
    next
      assume "x \<in> set (route_to_tunnel w)"
      from old[OF this] show ?thesis by (simp add: w')
    qed
  qed
  then show ?thesis using d by (simp add: inv2_alt w'(1) distinct_update)
qed

lemma inv2_ws_close: "inv2 w \<Longrightarrow> inv2 (ws_close w s)"
  by (erule inv2_fields) (simp_all add: ws_close_def)

lemma inv2_delete:
  assumes "inv2 w" shows "inv2 (snd (delete_tunnel w r))"
proof (cases "map_of (route_to_tunnel w) r")
  case None
  then show ?thesis using assms by (simp add: delete_tunnel_def)
next
  case (Some t)
  let ?w1 = "w\<lparr>route_to_tunnel := AList.delete r (route_to_tunnel w)\<rparr>"
  have 1: "inv2 ?w1"
    using assms set_delete_subset[of r "route_to_tunnel w"]
    by (auto simp: inv2_alt distinct_delete)
  have 2: "inv2 (w1\<lparr>token_to_route := x\<rparr>)" if "inv2 w1" for w1 x
    using that by (rule inv2_fields) simp_all
  show ?thesis using Some 1 2
    by (auto simp: delete_tunnel_def Let_def inv2_ws_close split: option.splits)
qed

lemma inv2_attach_locked: "inv2 w \<Longrightarrow> attach_locked w tok s = Inr (t, w') \<Longrightarrow> inv2 w'"
  by (auto simp: attach_locked_def session_ok_def split: option.splits if_splits
      intro!: inv2_set_tunnel)

lemma inv2_attach: "inv2 w \<Longrightarrow> attach_websocket db w tok s = Inr (t, w') \<Longrightarrow> inv2 w'"
  by (auto simp: attach_websocket_def split: option.splits if_splits dest: inv2_attach_locked)

lemma inv2_detach: "inv2 w \<Longrightarrow> inv2 (detach_websocket w s)"
  by (auto simp: detach_websocket_def session_ok_def split: option.splits intro!: inv2_set_tunnel)

lemma inv2_register:
  "inv2 w \<Longrightarrow> ingress_register w r p u = Inr (s, cid, f, p', w') \<Longrightarrow> inv2 w'"
  by (erule inv2_fields)
    (auto simp: ingress_register_def Let_def split: option.splits if_splits)

lemma inv2_send_json: "inv2 w \<Longrightarrow> send_json w s fr = Inr w' \<Longrightarrow> inv2 w'"
  by (erule inv2_fields) (auto simp: send_json_def split: option.splits)

lemma inv2_wait_for: "inv2 w \<Longrightarrow> inv2 (snd (wait_for w f))"
  by (erule inv2_fields) (auto simp: wait_for_def split: future_state.splits)

lemma inv2_cleanup: "inv2 w \<Longrightarrow> inv2 (ingress_cleanup w r cid)"
  by (erule inv2_fields) (auto simp: ingress_cleanup_def set_tunnel_def split: option.splits)

lemma inv2_message: "inv2 w \<Longrightarrow> handle_client_message w s m = Inr w' \<Longrightarrow> inv2 w'"
  by (erule inv2_fields)
    (auto simp: handle_client_message_def set_tunnel_def
      split: sum.splits option.splits if_splits jval.splits)

lemma inv2_ping_failed: "inv2 w \<Longrightarrow> inv2 (ping_failed w t)"
  by (auto simp: ping_failed_def Let_def session_ok_def inv2_ws_close
      split: option.splits intro!: inv2_set_tunnel)

lemma inv2_network: "inv2 w \<Longrightarrow> inv2 (w\<lparr>sockets := so, clock := c\<rparr>)"
  by (erule inv2_fields) simp_all

lemma reachable_inv2: "reachable w \<Longrightarrow> inv2 w"
proof (induction rule: reachable.induct)
  case (start w) then show ?case by (simp add: inv2_start)
next
  case (create w r d u t w') then show ?case by (auto intro: inv2_create)
next
  case (delete w r) then show ?case by (simp add: inv2_delete)
next
  case (attach w db tok s t w') then show ?case by (auto intro: inv2_attach)
next
  case (detach w s) then show ?case by (simp add: inv2_detach)
next
  case (register w r p u s cid f p' w') then show ?case by (auto intro: inv2_register)
next
  case (written w s fr w') then show ?case by (auto intro: inv2_send_json)
next
  case (woken w f) then show ?case by (simp add: inv2_wait_for)
next
  case (cleanup w r cid) then show ?case by (simp add: inv2_cleanup)
next
  case (message w s m w') then show ?case by (auto intro: inv2_message)
next
  case (ping_failure w t) then show ?case by (simp add: inv2_ping_failed)
next
  case (closed_socket w s) then show ?case by (simp add: inv2_ws_close)
next
  case (network w so c) then show ?case by (simp add: inv2_network)
qed

text \<open>
  In \<open>world_live\<close> the server has created the route \<^verbatim>\<open>svc\<close>, attached socket 5 to it
  and registered one ingress request.
\<close>

lemma svc_token_uuid: "uuid4_hex 0x3f2b8c1e9d4a4f6b8a7c5e2d1f0a9b8c = svc_token"
  unfolding svc_token_def by code_simp

lemma cid1_uuid: "uuid4_hex 0x7e1c0a9b8d2f4c3a9b6e0f1d2c3b4a59 = cid1"
  unfolding cid1_def by code_simp

lemma world0_reachable: "reachable world0"
  by (rule reachable.start) (simp_all add: world0_def)

lemma create_svc:
  "create_tunnel world0 ''svc'' None 0x3f2b8c1e9d4a4f6b8a7c5e2d1f0a9b8c = Inr (0, world_svc)"
  by (simp add: create_tunnel_def svc_token_uuid world0_def world_svc_def live_tunnel_def)

lemma attach_svc: "attach_websocket None world_svc svc_token 5 = Inr (0, world_attached)"
  by (simp add: attach_websocket_def attach_locked_def world_svc_def world_attached_def
      set_tunnel_def live_tunnel_def)

lemma register_svc:
  "ingress_register world_attached ''svc'' (build_payload get_root [])
      0x7e1c0a9b8d2f4c3a9b6e0f1d2c3b4a59 =
    Inr (5, cid1, 0, (build_payload get_root [])\<lparr>correlation_id := cid1\<rparr>, world_live)"
  by (simp add: ingress_register_def world_svc_def world_attached_def live_tunnel_def cid1_uuid
      build_payload_def world_live_def Let_def fun_eq_iff)

lemma world_live_reachable: "reachable world_live"
  using reachable.register [OF reachable.attach [OF reachable.create
    [OF world0_reachable create_svc] attach_svc] register_svc] .

text \<open>
  C9. In every state the server can reach, whatever the interleaving of the steps of
  create, delete, attach, detach, ingress, client messages and the ping failure handler,
  no route is registered twice and every registered session has exactly one of
  \<open>connected\<close> with a socket and \<open>\<not> connected\<close> without one.
\<close>

theorem registry_invariant: "reachable w \<Longrightarrow> registry_inv w"
  by (drule reachable_inv2) (simp add: inv2_def)

theorem registry_invariant_witness: "reachable world_live \<and> registry_inv world_live"
  using registry_invariant [OF world_live_reachable] world_live_reachable by simp

subsection \<open>Requests to a route that is not attached\<close>

lemma register_not_attached:
  "\<not> attached w r \<Longrightarrow> ingress_register w r p u = Inl (ConnectionError ''Tunnel not connected'')"
  by (auto simp: attached_def get_tunnel_def ingress_register_def split: option.splits)

lemma not_connected_reply:
  "http_exception_reply (Inl (HTTPException 502 ''Tunnel not connected'')) =
     Some \<lparr>reply_status = 502, reply_content_type = Some ''application/json'',
           reply_body =
             [123, 34, 100, 101, 116, 97, 105, 108, 34, 58, 34, 84, 117, 110, 110, 101, 108, 32,
              110, 111, 116, 32, 99, 111, 110, 110, 101, 99, 116, 101, 100, 34, 125]\<rparr>"
  by code_simp

lemma plain_body:
  "utf8 ''Tunnel not connected'' =
     [84, 117, 110, 110, 101, 108, 32, 110, 111, 116, 32, 99, 111, 110, 110, 101, 99, 116, 101, 100]"
  by code_simp

text \<open>
  C7, as the specification states it, fails in its last part: the route \<^verbatim>\<open>svc\<close> exists and
  was never attached; \<^verbatim>\<open>forward_request\<close> raises \<^verbatim>\<open>HTTPException(502, "Tunnel not connected")\<close>
  and the public caller gets status 502 with content type \<^verbatim>\<open>application/json\<close> and the
  33 bytes of \<^verbatim>\<open>{"detail":"Tunnel not connected"}\<close>, which are not the 20 bytes of the plain
  text \<^verbatim>\<open>Tunnel not connected\<close>.
\<close>

theorem not_connected_counterexample:
  "\<not> attached world_svc ''svc'' \<and>
   forward_request id id world_svc get_root ''svc'' [] 0 =
     (Inl (HTTPException 502 ''Tunnel not connected''), world_svc) \<and>
   http_exception_reply (fst (forward_request id id world_svc get_root ''svc'' [] 0)) =
     Some \<lparr>reply_status = 502, reply_content_type = Some ''application/json'',
           reply_body =
             [123, 34, 100, 101, 116, 97, 105, 108, 34, 58, 34, 84, 117, 110, 110, 101, 108, 32,
              110, 111, 116, 32, 99, 111, 110, 110, 101, 99, 116, 101, 100, 34, 125]\<rparr> \<and>
   utf8 ''Tunnel not connected'' =
     [84, 117, 110, 110, 101, 108, 32, 110, 111, 116, 32, 99, 111, 110, 110, 101, 99, 116, 101, 100] \<and>
   [123, 34, 100, 101, 116, 97, 105, 108, 34, 58, 34, 84, 117, 110, 110, 101, 108, 32,
    110, 111, 116, 32, 99, 111, 110, 110, 101, 99, 116, 101, 100, 34, 125] \<noteq>
     utf8 ''Tunnel not connected''"
proof -
  have a: "\<not> attached world_svc ''svc''"
    by (simp add: attached_def get_tunnel_def world_svc_def live_tunnel_def)
  have f: "forward_request id id world_svc get_root ''svc'' [] 0 =
     (Inl (HTTPException 502 ''Tunnel not connected''), world_svc)"
    using a by (simp add: send_ingress_request_def forward_request_def register_not_attached)
  show ?thesis
    using a not_connected_reply by (simp add: f plain_body)
qed

text \<open>
  C7, amended. When the route has no attached session (it is not registered, or its
  session is not connected), \<^verbatim>\<open>send_ingress_request\<close> raises
  \<^verbatim>\<open>ConnectionError("Tunnel not connected")\<close> without changing the state,
  \<^verbatim>\<open>forward_request\<close> raises \<^verbatim>\<open>HTTPException(502, "Tunnel not connected")\<close>, and the public
  caller receives status 502 with content type \<^verbatim>\<open>application/json\<close> and the body
  \<^verbatim>\<open>{"detail":"Tunnel not connected"}\<close>.
\<close>

theorem not_connected_502:
  assumes "\<not> attached w r"
  shows "send_ingress_request others1 others2 w r p u =
           (Inl (ConnectionError ''Tunnel not connected''), w) \<and>
         forward_request others1 others2 w req r rest_of_path u =
           (Inl (HTTPException 502 ''Tunnel not connected''), w) \<and>
         http_exception_reply (fst (forward_request others1 others2 w req r rest_of_path u)) =
           Some \<lparr>reply_status = 502, reply_content_type = Some ''application/json'',
                 reply_body =
                   [123, 34, 100, 101, 116, 97, 105, 108, 34, 58, 34, 84, 117, 110, 110, 101, 108,
                    32, 110, 111, 116, 32, 99, 111, 110, 110, 101, 99, 116, 101, 100, 34, 125]\<rparr>"
proof -
  have f: "forward_request others1 others2 w req r rest_of_path u =
           (Inl (HTTPException 502 ''Tunnel not connected''), w)"
    using assms
    by (simp add: send_ingress_request_def forward_request_def register_not_attached)
  show ?thesis
    using assms not_connected_reply
    by (simp add: f) (simp add: send_ingress_request_def register_not_attached)
qed

theorem not_connected_502_witness:
  "\<not> attached world_svc ''svc'' \<and> \<not> attached world_svc ''ghost'' \<and>
   forward_request id id world_svc get_root ''svc'' [] 0 =
     (Inl (HTTPException 502 ''Tunnel not connected''), world_svc) \<and>
   forward_request id id world_svc get_root ''ghost'' [] 0 =
     (Inl (HTTPException 502 ''Tunnel not connected''), world_svc) \<and>
   http_exception_reply (fst (forward_request id id world_svc get_root ''ghost'' [] 0)) =
     Some \<lparr>reply_status = 502, reply_content_type = Some ''application/json'',
           reply_body =
             [123, 34, 100, 101, 116, 97, 105, 108, 34, 58, 34, 84, 117, 110, 110, 101, 108, 32,
              110, 111, 116, 32, 99, 111, 110, 110, 101, 99, 116, 101, 100, 34, 125]\<rparr>"
proof -
  have a: "\<not> attached world_svc ''svc''"
    by (simp add: attached_def get_tunnel_def world_svc_def live_tunnel_def)
  have b: "\<not> attached world_svc ''ghost''"
    by (simp add: attached_def get_tunnel_def world_svc_def)
  show ?thesis
    using a b not_connected_502 [OF a, of id id "build_payload get_root []" 0 get_root "[]"]
      not_connected_502 [OF b, of id id "build_payload get_root []" 0 get_root "[]"] by blast
qed

subsection \<open>The correlation id on the wire\<close>

lemma hex_digit_all: "list_all (\<lambda>n. hex_digit n \<in> set ''0123456789abcdef'') [0..<16]"
  by code_simp

lemma hex_digit_range: "n < 16 \<Longrightarrow> hex_digit n \<in> set ''0123456789abcdef''"
  using hex_digit_all unfolding list_all_iff by simp

lemma nibble_bound: "unat ((x :: 128 word) AND 15) < 16"
proof -
  have "x AND 15 \<le> 15" by (simp add: word_and_le1)
  then have "unat (x AND 15) \<le> 15" by (simp add: word_le_nat_alt)
  then show ?thesis by simp
qed

lemma uuid4_hex_format:
  "length (uuid4_hex u) = 32 \<and> set (uuid4_hex u) \<subseteq> set ''0123456789abcdef''"
  using hex_digit_range [OF nibble_bound]
  by (auto simp add: uuid4_hex_def simp del: set_simps)

lemma sockets_wait_for [simp]: "sockets (snd (wait_for w f)) = sockets w"
  by (simp add: wait_for_def split: future_state.splits)

lemma sockets_cleanup [simp]: "sockets (ingress_cleanup w r cid) = sockets w"
  by (simp add: ingress_cleanup_def set_tunnel_def split: option.splits)

lemma register_attached:
  assumes "get_tunnel w r = Some t" "connected (tunnels w t)" "websocket (tunnels w t) = Some s"
  shows "ingress_register w r p u =
           Inr (s, (if correlation_id p = [] then uuid4_hex u else correlation_id p), next_future w,
                p\<lparr>correlation_id := (if correlation_id p = [] then uuid4_hex u else correlation_id p)\<rparr>,
                w\<lparr>futures := (futures w)(next_future w := FPending), next_future := Suc (next_future w),
                  tunnels := (tunnels w)(t := (tunnels w t)\<lparr>pending :=
                     AList.update (if correlation_id p = [] then uuid4_hex u else correlation_id p)
                       \<lparr>future = next_future w, requested_at = clock w\<rparr> (pending (tunnels w t))\<rparr>)\<rparr>)"
  using assms by (simp add: ingress_register_def get_tunnel_def Let_def)

lemma snd_forward_request:
  "snd (forward_request o1 o2 w req r rest u) =
     snd (send_ingress_request o1 o2 w r (build_payload req rest) u)"
  by (simp add: forward_request_def split: prod.splits sum.splits)

text \<open>
  C10. Whatever the public request is (its method, headers, query and body), the
  correlation id that \<^verbatim>\<open>forward_request\<close> puts on the \<^verbatim>\<open>request\<close> frame is the hex form of
  the UUID drawn for this call: the payload is built with an empty correlation id, so the
  registry always takes the new one. The frame written to the socket of the route carries
  it, and it is 32 lower-case hex digits, that is 128 bits.
\<close>

theorem correlation_id_minted:
  assumes "get_tunnel w r = Some t" and "connected (tunnels w t)"
    and "websocket (tunnels w t) = Some s" and "send_error (sockets w s) = None"
  shows "(\<exists>f w1. ingress_register w r (build_payload req rest_of_path) u =
            Inr (s, uuid4_hex u, f,
                 (build_payload req rest_of_path)\<lparr>correlation_id := uuid4_hex u\<rparr>, w1)) \<and>
         sent (sockets (snd (forward_request id id w req r rest_of_path u)) s) =
           sent (sockets w s) @
             [RequestFrame ((build_payload req rest_of_path)\<lparr>correlation_id := uuid4_hex u\<rparr>)] \<and>
         length (uuid4_hex u) = 32 \<and> set (uuid4_hex u) \<subseteq> set ''0123456789abcdef''"
proof -
  have c: "correlation_id (build_payload req rest_of_path) = []"
    by (simp add: build_payload_def)
  have "sent (sockets (snd (forward_request id id w req r rest_of_path u)) s) =
           sent (sockets w s) @
             [RequestFrame ((build_payload req rest_of_path)\<lparr>correlation_id := uuid4_hex u\<rparr>)]"
    using assms(4)
    by (simp add: register_attached [OF assms(1-3)] c snd_forward_request
        send_ingress_request_def send_json_def split_beta)
  moreover have "\<exists>f w1. ingress_register w r (build_payload req rest_of_path) u =
            Inr (s, uuid4_hex u, f,
                 (build_payload req rest_of_path)\<lparr>correlation_id := uuid4_hex u\<rparr>, w1)"
    by (simp add: register_attached [OF assms(1-3)] c)
  ultimately show ?thesis using uuid4_hex_format by blast
qed

theorem correlation_id_minted_witness:
  "get_tunnel world_attached ''svc'' = Some 0 \<and> connected (tunnels world_attached 0) \<and>
   websocket (tunnels world_attached 0) = Some 5 \<and> send_error (sockets world_attached 5) = None \<and>
   sent (sockets (snd (forward_request id id world_attached
       (get_root\<lparr>req_headers := [(''X-Correlation-Id'', ''abc'')], req_query := [(''correlation_id'', ''abc'')]\<rparr>)
       ''svc'' [] 0x7e1c0a9b8d2f4c3a9b6e0f1d2c3b4a59)) 5) =
     [RequestFrame ((build_payload
       (get_root\<lparr>req_headers := [(''X-Correlation-Id'', ''abc'')], req_query := [(''correlation_id'', ''abc'')]\<rparr>) [])
       \<lparr>correlation_id := cid1\<rparr>)]"
proof -
  have h: "get_tunnel world_attached ''svc'' = Some 0" "connected (tunnels world_attached 0)"
    "websocket (tunnels world_attached 0) = Some 5" "send_error (sockets world_attached 5) = None"
    by (simp_all add: get_tunnel_def world_attached_def world_svc_def live_tunnel_def fresh_socket_def)
  have e: "sent (sockets world_attached 5) = []"
    by (simp add: world_attached_def world_svc_def fresh_socket_def)
  show ?thesis
    using h e correlation_id_minted [OF h, of _ "[]" "0x7e1c0a9b8d2f4c3a9b6e0f1d2c3b4a59"]
    by (simp add: cid1_uuid)
qed

subsection \<open>Timeout of a forwarded request\<close>

lemma fst_forward_request:
  "fst (forward_request o1 o2 w req r rest u) =
     (case fst (send_ingress_request o1 o2 w r (build_payload req rest) u) of
        Inl e \<Rightarrow> if is_ConnectionError e then Inl (HTTPException 502 ''Tunnel not connected'') else Inl e
      | Inr resp \<Rightarrow> render_response resp)"
  by (simp add: forward_request_def split: prod.splits sum.splits)

lemma late_dropped:
  assumes "py_get m ''type'' = Inr (Some (JStr ''response''))"
    and "py_get m ''correlation_id'' = Inr (Some (JStr cid))"
    and "\<And>t. tunnel_of_socket w s = Some t \<Longrightarrow> map_of (pending (tunnels w t)) cid = None"
  shows "handle_client_message w s m = Inr w"
  using assms by (simp add: handle_client_message_def split: option.splits)

lemma pending_cleanup:
  "get_tunnel (ingress_cleanup w r cid) r = Some t \<Longrightarrow>
     map_of (pending (tunnels (ingress_cleanup w r cid) t)) cid = None"
  by (auto simp: ingress_cleanup_def get_tunnel_def set_tunnel_def delete_conv' split: option.splits)

lemma write_svc:
  "send_json world_live 5 (RequestFrame ((build_payload get_root [])\<lparr>correlation_id := cid1\<rparr>)) =
     Inr world_written"
  by (simp add: send_json_def world_live_def world_written_def fresh_socket_def)

lemma wait_written:
  "wait_for world_written 0 =
     (Inl TimeoutError, world_written\<lparr>futures := (\<lambda>f. FPending)(0 := FCancelled)\<rparr>)"
  by (simp add: wait_for_def world_written_def world_live_def)

lemma ingress_svc_times_out:
  "send_ingress_request id id world_attached ''svc'' (build_payload get_root [])
       0x7e1c0a9b8d2f4c3a9b6e0f1d2c3b4a59 = (Inl TimeoutError, world_timed_out)"
  by (simp add: send_ingress_request_def register_svc write_svc wait_written world_timed_out_def)

lemma world_timed_out_svc:
  "get_tunnel world_timed_out ''svc'' = Some 0 \<and> tunnel_of_socket world_timed_out 5 = Some 0"
  by (simp add: world_timed_out_def ingress_cleanup_def get_tunnel_def set_tunnel_def
      tunnel_of_socket_def world_written_def world_live_def live_tunnel_def)

text \<open>
  C1, as the specification states it, fails: the route \<^verbatim>\<open>svc\<close> is attached, the client
  never answers, and \<^verbatim>\<open>forward_request\<close> ends with the \<^verbatim>\<open>TimeoutError\<close> of
  \<^verbatim>\<open>asyncio.wait_for\<close>, not with a 504 response.
\<close>

theorem timeout_counterexample:
  "forward_request id id world_attached get_root ''svc'' []
      0x7e1c0a9b8d2f4c3a9b6e0f1d2c3b4a59 = (Inl TimeoutError, world_timed_out) \<and>
   fst (forward_request id id world_attached get_root ''svc'' []
      0x7e1c0a9b8d2f4c3a9b6e0f1d2c3b4a59) \<noteq> Inl (HTTPException 504 ''Tunnel timeout'')"
  by (simp add: forward_request_def ingress_svc_times_out)

text \<open>
  C1, amended. When the request has been registered and written and its future has no
  result when \<^verbatim>\<open>wait_for\<close> gives up, \<^verbatim>\<open>send_ingress_request\<close> raises \<^verbatim>\<open>TimeoutError\<close> and
  \<^verbatim>\<open>forward_request\<close> lets it through unchanged. The pending entry of the correlation id
  is removed from the session of the route, and a later \<^verbatim>\<open>response\<close> frame with that
  correlation id on the socket of that session leaves the state as it is.
\<close>

theorem timeout_unhandled:
  assumes "ingress_register w r (build_payload req rest_of_path) u = Inr (s, cid, f, p', w1)"
    and "send_json w1 s (RequestFrame p') = Inr w2"
    and "futures (others1 w2) f = FPending"
  shows "fst (send_ingress_request others1 others2 w r (build_payload req rest_of_path) u) =
           Inl TimeoutError \<and>
         fst (forward_request others1 others2 w req r rest_of_path u) = Inl TimeoutError \<and>
         (\<forall>t. get_tunnel (snd (forward_request others1 others2 w req r rest_of_path u)) r = Some t \<longrightarrow>
            map_of (pending (tunnels (snd (forward_request others1 others2 w req r rest_of_path u)) t)) cid
              = None) \<and>
         (\<forall>s' m. tunnel_of_socket (snd (forward_request others1 others2 w req r rest_of_path u)) s' =
                   get_tunnel (snd (forward_request others1 others2 w req r rest_of_path u)) r \<longrightarrow>
                 py_get m ''type'' = Inr (Some (JStr ''response'')) \<longrightarrow>
                 py_get m ''correlation_id'' = Inr (Some (JStr cid)) \<longrightarrow>
                 handle_client_message (snd (forward_request others1 others2 w req r rest_of_path u)) s' m =
                   Inr (snd (forward_request others1 others2 w req r rest_of_path u)))"
proof -
  let ?wf = "snd (forward_request others1 others2 w req r rest_of_path u)"
  let ?w3 = "(others1 w2)\<lparr>futures := (futures (others1 w2))(f := FCancelled)\<rparr>"
  have s: "send_ingress_request others1 others2 w r (build_payload req rest_of_path) u =
             (Inl TimeoutError, ingress_cleanup (others2 ?w3) r cid)"
    using assms by (simp add: send_ingress_request_def wait_for_def)
  then have wf: "?wf = ingress_cleanup (others2 ?w3) r cid"
    by (simp add: snd_forward_request)
  have 1: "fst (forward_request others1 others2 w req r rest_of_path u) = Inl TimeoutError"
    by (simp add: fst_forward_request s)
  have 2: "map_of (pending (tunnels ?wf t)) cid = None" if "get_tunnel ?wf r = Some t" for t
    using that unfolding wf by (rule pending_cleanup)
  have 3: "handle_client_message ?wf s' m = Inr ?wf"
    if "tunnel_of_socket ?wf s' = get_tunnel ?wf r"
      and "py_get m ''type'' = Inr (Some (JStr ''response''))"
      and "py_get m ''correlation_id'' = Inr (Some (JStr cid))" for s' m
    using that(2,3)
  proof (rule late_dropped)
    fix t assume "tunnel_of_socket ?wf s' = Some t"
    with that(1) have "get_tunnel ?wf r = Some t" by simp
    then show "map_of (pending (tunnels ?wf t)) cid = None" by (rule 2)
  qed
  show ?thesis using s 1 2 3 by simp
qed

theorem timeout_unhandled_witness:
  "ingress_register world_attached ''svc'' (build_payload get_root [])
       0x7e1c0a9b8d2f4c3a9b6e0f1d2c3b4a59 =
     Inr (5, cid1, 0, (build_payload get_root [])\<lparr>correlation_id := cid1\<rparr>, world_live) \<and>
   send_json world_live 5 (RequestFrame ((build_payload get_root [])\<lparr>correlation_id := cid1\<rparr>)) =
     Inr world_written \<and>
   futures (id world_written) 0 = FPending \<and>
   forward_request id id world_attached get_root ''svc'' []
       0x7e1c0a9b8d2f4c3a9b6e0f1d2c3b4a59 = (Inl TimeoutError, world_timed_out) \<and>
   get_tunnel world_timed_out ''svc'' = Some 0 \<and>
   map_of (pending (tunnels world_timed_out 0)) cid1 = None \<and>
   tunnel_of_socket world_timed_out 5 = Some 0 \<and>
   handle_client_message world_timed_out 5 (late_response cid1) = Inr world_timed_out"
proof -
  have f: "futures (id world_written) 0 = FPending"
    by (simp add: world_written_def world_live_def)
  have g: "forward_request id id world_attached get_root ''svc'' []
       0x7e1c0a9b8d2f4c3a9b6e0f1d2c3b4a59 = (Inl TimeoutError, world_timed_out)"
    by (simp add: forward_request_def ingress_svc_times_out)
  have m: "py_get (late_response cid1) ''type'' = Inr (Some (JStr ''response''))"
    "py_get (late_response cid1) ''correlation_id'' = Inr (Some (JStr cid1))"
    by (simp_all add: late_response_def)
  show ?thesis
    using timeout_unhandled [where ?others1.0 = id and ?others2.0 = id,
        OF register_svc write_svc f]
      register_svc write_svc f m world_timed_out_svc
    by (simp add: g)
qed

subsection \<open>Failure of the write\<close>

lemma register_broken:
  "ingress_register world_broken ''svc'' (build_payload get_root [])
      0x7e1c0a9b8d2f4c3a9b6e0f1d2c3b4a59 =
    Inr (5, cid1, 0, (build_payload get_root [])\<lparr>correlation_id := cid1\<rparr>, world_leaked)"
  by (simp add: ingress_register_def world_svc_def world_attached_def live_tunnel_def cid1_uuid
      build_payload_def world_live_def world_broken_def world_leaked_def Let_def fun_eq_iff)

lemma write_broken: "send_json world_leaked 5 fr = Inl WebSocketDisconnect"
  by (simp add: send_json_def world_leaked_def)

lemma ingress_broken:
  "send_ingress_request id id world_broken ''svc'' (build_payload get_root [])
       0x7e1c0a9b8d2f4c3a9b6e0f1d2c3b4a59 = (Inl WebSocketDisconnect, world_leaked)"
  by (simp add: send_ingress_request_def register_broken write_broken)

text \<open>
  C4, as the specification states it, fails: the route is attached to a socket whose
  transport is gone; the write raises \<^verbatim>\<open>WebSocketDisconnect\<close>, which leaves
  \<^verbatim>\<open>forward_request\<close> as it is (no 502), and the pending entry of the request is still in
  the table of the session.
\<close>

theorem write_failure_counterexample:
  "send_error (sockets world_broken 5) = Some WebSocketDisconnect \<and>
   forward_request id id world_broken get_root ''svc'' [] 0x7e1c0a9b8d2f4c3a9b6e0f1d2c3b4a59 =
     (Inl WebSocketDisconnect, world_leaked) \<and>
   get_tunnel world_leaked ''svc'' = Some 0 \<and>
   map_of (pending (tunnels world_leaked 0)) cid1 = Some \<lparr>future = 0, requested_at = 0\<rparr>"
  by (simp add: forward_request_def ingress_broken)
     (simp add: world_leaked_def world_live_def world_broken_def get_tunnel_def live_tunnel_def)

text \<open>
  C4, amended. When the write of the request frame raises, \<^verbatim>\<open>send_ingress_request\<close> fails
  with that very exception, and \<^verbatim>\<open>forward_request\<close> turns it into
  \<^verbatim>\<open>HTTPException(502, "Tunnel not connected")\<close> exactly when it is a \<^verbatim>\<open>ConnectionError\<close>;
  any other exception leaves \<^verbatim>\<open>forward_request\<close> unchanged.
\<close>

theorem write_failure_propagates:
  assumes "ingress_register w r (build_payload req rest_of_path) u = Inr (s, cid, f, p', w1)"
    and "send_json w1 s (RequestFrame p') = Inl e"
  shows "fst (send_ingress_request others1 others2 w r (build_payload req rest_of_path) u) = Inl e \<and>
         fst (forward_request others1 others2 w req r rest_of_path u) =
           Inl (if is_ConnectionError e then HTTPException 502 ''Tunnel not connected'' else e)"
  using assms by (simp add: fst_forward_request send_ingress_request_def)

theorem write_failure_propagates_witness:
  "ingress_register world_broken ''svc'' (build_payload get_root [])
      0x7e1c0a9b8d2f4c3a9b6e0f1d2c3b4a59 =
    Inr (5, cid1, 0, (build_payload get_root [])\<lparr>correlation_id := cid1\<rparr>, world_leaked) \<and>
   send_json world_leaked 5 (RequestFrame ((build_payload get_root [])\<lparr>correlation_id := cid1\<rparr>)) =
     Inl WebSocketDisconnect \<and>
   fst (forward_request id id world_broken get_root ''svc'' []
          0x7e1c0a9b8d2f4c3a9b6e0f1d2c3b4a59) = Inl WebSocketDisconnect"
  using write_failure_propagates [where ?others1.0 = id and ?others2.0 = id,
      OF register_broken write_broken] register_broken write_broken
  by simp

subsection \<open>Attach on a session that is already attached\<close>

lemma attach_live: "attach_websocket None world_live svc_token 6 = Inr (0, world_reattached)"
  by (simp add: attach_websocket_def attach_locked_def world_live_def world_reattached_def
      set_tunnel_def live_tunnel_def)

text \<open>
  C2, as the specification states it, fails: the session of \<^verbatim>\<open>svc\<close> is attached to
  socket 5 with one request in flight, a second client attaches socket 6 with the same
  token; afterwards socket 5 has not been closed, the pending entry is still in the table
  and its future has neither a result nor an error.
\<close>

theorem reattach_counterexample:
  "websocket (tunnels world_live 0) = Some 5 \<and> connected (tunnels world_live 0) \<and>
   attach_websocket None world_live svc_token 6 = Inr (0, world_reattached) \<and>
   websocket (tunnels world_reattached 0) = Some 6 \<and>
   \<not> closed (sockets world_reattached 5) \<and>
   map_of (pending (tunnels world_reattached 0)) cid1 = Some \<lparr>future = 0, requested_at = 0\<rparr> \<and>
   futures world_reattached 0 = FPending"
  by (simp add: attach_live)
     (simp add: world_live_def world_reattached_def live_tunnel_def fresh_socket_def)

text \<open>
  C2, amended. An attach that succeeds, on a session already attached or not, puts the new
  socket in the place of the previous one, sets \<open>connected\<close> and \<open>last_seen\<close>, and changes
  nothing else: no socket is closed, the pending table and the futures stay as they are.
\<close>

theorem reattach_replaces:
  assumes "attach_websocket db w tok s = Inr (t, w')"
  shows "websocket (tunnels w' t) = Some s \<and> connected (tunnels w' t) \<and>
         last_seen (tunnels w' t) = Some (clock w) \<and>
         pending (tunnels w' t) = pending (tunnels w t) \<and>
         futures w' = futures w \<and> sockets w' = sockets w \<and>
         route_to_tunnel w' = route_to_tunnel w \<and> token_to_route w' = token_to_route w \<and>
         (\<forall>t'. t' \<noteq> t \<longrightarrow> tunnels w' t' = tunnels w t')"
  using assms
  by (auto simp: attach_websocket_def attach_locked_def set_tunnel_def
      split: option.splits if_splits)

theorem reattach_replaces_witness:
  "attach_websocket None world_live svc_token 6 = Inr (0, world_reattached) \<and>
   websocket (tunnels world_live 0) = Some 5 \<and>
   websocket (tunnels world_reattached 0) = Some 6 \<and> connected (tunnels world_reattached 0) \<and>
   pending (tunnels world_reattached 0) = pending (tunnels world_live 0) \<and>
   futures world_reattached = futures world_live \<and> sockets world_reattached = sockets world_live"
proof -
  have "websocket (tunnels world_live 0) = Some 5"
    by (simp add: world_live_def live_tunnel_def)
  then show ?thesis
    using reattach_replaces [OF attach_live] attach_live by simp
qed

subsection \<open>Detach\<close>

text \<open>
  C3, as the specification states it, fails: socket 5 is detached from the session of
  \<^verbatim>\<open>svc\<close> while one request is in flight; the session is not connected any more, but the
  pending entry is still in the table and its future has neither a result nor an error.
\<close>

theorem detach_counterexample:
  "tunnel_of_socket world_live 5 = Some 0 \<and>
   \<not> connected (tunnels (detach_websocket world_live 5) 0) \<and>
   map_of (pending (tunnels (detach_websocket world_live 5) 0)) cid1 =
     Some \<lparr>future = 0, requested_at = 0\<rparr> \<and>
   futures (detach_websocket world_live 5) 0 = FPending"
  by (simp add: detach_websocket_def tunnel_of_socket_def world_live_def live_tunnel_def
      set_tunnel_def)

lemma tunnel_of_socket_holds:
  "tunnel_of_socket w s = Some t \<Longrightarrow> websocket (tunnels w t) = Some s"
  by (auto simp: tunnel_of_socket_def find_Some_iff)

text \<open>
  C3, amended. Every path of the code that detaches a socket from its session leaves the
  session with \<open>connected = False\<close>, no socket and \<open>last_seen\<close> at the time of the detach,
  and leaves the pending table and all futures exactly as they were: no entry is resolved
  and none is removed. The paths are \<^verbatim>\<open>detach_websocket\<close>; the receive loop when
  \<^verbatim>\<open>receive_json\<close> raises \<^verbatim>\<open>WebSocketDisconnect\<close>, which detaches; the receive loop on any
  other exception, which detaches and then closes the socket; and the failure handler of
  \<^verbatim>\<open>ping_connected\<close>, which closes the socket and then detaches.
\<close>

theorem detach_disconnects:
  assumes "tunnel_of_socket w s = Some t"
  shows "\<not> connected (tunnels (detach_websocket w s) t) \<and>
         websocket (tunnels (detach_websocket w s) t) = None \<and>
         last_seen (tunnels (detach_websocket w s) t) = Some (clock w) \<and>
         pending (tunnels (detach_websocket w s) t) = pending (tunnels w t) \<and>
         futures (detach_websocket w s) = futures w \<and>
         tunnel_ws_step w s (RecvRaise WebSocketDisconnect) = (Returned, detach_websocket w s) \<and>
         (is_Exception e \<longrightarrow> e \<noteq> WebSocketDisconnect \<longrightarrow>
            tunnel_ws_step w s (RecvRaise e) = (Returned, ws_close (detach_websocket w s) s)) \<and>
         tunnels (ws_close (detach_websocket w s) s) = tunnels (detach_websocket w s) \<and>
         futures (ws_close (detach_websocket w s) s) = futures w \<and>
         closed (sockets (ws_close (detach_websocket w s) s) s) \<and>
         \<not> connected (tunnels (ping_failed w t) t) \<and>
         websocket (tunnels (ping_failed w t) t) = None \<and>
         last_seen (tunnels (ping_failed w t) t) = Some (clock w) \<and>
         pending (tunnels (ping_failed w t) t) = pending (tunnels w t) \<and>
         futures (ping_failed w t) = futures w \<and>
         closed (sockets (ping_failed w t) s)"
  using assms tunnel_of_socket_holds [OF assms]
  by (simp add: detach_websocket_def set_tunnel_def tunnel_ws_step_def ws_loop_except_def
      ws_close_def ping_failed_def)

theorem detach_disconnects_witness:
  "tunnel_of_socket world_live 5 = Some 0 \<and>
   \<not> connected (tunnels (detach_websocket world_live 5) 0) \<and>
   websocket (tunnels (detach_websocket world_live 5) 0) = None \<and>
   pending (tunnels (detach_websocket world_live 5) 0) = pending (tunnels world_live 0) \<and>
   futures (detach_websocket world_live 5) = futures world_live \<and>
   tunnel_ws_step world_live 5 (RecvRaise WebSocketDisconnect) =
     (Returned, detach_websocket world_live 5) \<and>
   tunnel_ws_step world_live 5 (RecvRaise JSONDecodeError) =
     (Returned, ws_close (detach_websocket world_live 5) 5) \<and>
   pending (tunnels (ping_failed world_live 0) 0) = pending (tunnels world_live 0) \<and>
   futures (ping_failed world_live 0) = futures world_live \<and>
   closed (sockets (ping_failed world_live 0) 5)"
proof -
  have h: "tunnel_of_socket world_live 5 = Some 0"
    by (simp add: tunnel_of_socket_def world_live_def live_tunnel_def)
  show ?thesis using detach_disconnects [OF h, of JSONDecodeError] h by simp
qed

subsection \<open>Frames the server does not understand\<close>





subsection \<open>Base64 decodes what it encodes\<close>

lemma byte_lt: "unat (a :: byte) < 256"
  using unsigned_less [of a] by simp

lemma b64_value_char: "n < 64 \<Longrightarrow> b64_value (b64_char n) = Some n"
proof -
  assume n: "n < 64"
  consider "n < 26" | "26 \<le> n" "n < 52" | "52 \<le> n" "n < 62" | "n = 62" | "n = 63"
    using n by linarith
  then show ?thesis
  proof cases
    case 1 then show ?thesis by (simp add: b64_char_def b64_value_def Let_def)
  next
    case 2 then show ?thesis by (simp add: b64_char_def b64_value_def Let_def)
  next
    case 3 then show ?thesis by (auto simp add: b64_char_def b64_value_def Let_def)
  next
    case 4 then show ?thesis by (simp add: b64_char_def b64_value_def Let_def)
  next
    case 5 then show ?thesis by (simp add: b64_char_def b64_value_def Let_def)
  qed
qed

lemma b64_char_ascii: "n < 64 \<Longrightarrow> (of_char (b64_char n) :: nat) < 128"
  by (auto simp add: b64_char_def)

lemma b64_char_not_pad: "n < 64 \<Longrightarrow> b64_char n \<noteq> CHR ''=''"
proof
  assume "n < 64" and "b64_char n = CHR ''=''"
  then have "b64_value (b64_char n) = b64_value (CHR ''='')" by simp
  with \<open>n < 64\<close> show False by (simp add: b64_value_char) (simp add: b64_value_def)
qed

lemma sextets:
  fixes a b c :: byte
  shows "unat a div 4 < 64" "unat a mod 4 * 16 + unat b div 16 < 64"
    "unat b mod 16 * 4 + unat c div 64 < 64" "unat c mod 64 < 64"
    "unat a mod 4 * 16 < 64" "unat b mod 16 * 4 < 64"
  using byte_lt [of a] byte_lt [of b] byte_lt [of c] by simp_all

lemma byte1:
  fixes a b :: byte
  shows "(of_nat (unat a div 4 * 4 + (unat a mod 4 * 16 + unat b div 16) div 16) :: byte) = a"
proof -
  have "unat b div 16 < 16" using byte_lt [of b] by simp
  then have "unat a div 4 * 4 + (unat a mod 4 * 16 + unat b div 16) div 16 = unat a"
    by simp
  then show ?thesis by simp
qed

lemma byte1_pad:
  fixes a :: byte
  shows "(of_nat (unat a div 4 * 4 + (unat a mod 4 * 16) div 16) :: byte) = a"
proof -
  have "unat a div 4 * 4 + (unat a mod 4 * 16) div 16 = unat a" by simp
  then show ?thesis by simp
qed

lemma byte2:
  fixes a b c :: byte
  shows "(of_nat ((unat a mod 4 * 16 + unat b div 16) mod 16 * 16 +
            (unat b mod 16 * 4 + unat c div 64) div 4) :: byte) = b"
proof -
  have 1: "unat b div 16 < 16" using byte_lt [of b] by simp
  have 2: "unat c div 64 < 4" using byte_lt [of c] by simp
  from 1 have "(unat a mod 4 * 16 + unat b div 16) mod 16 = unat b div 16" by simp
  moreover from 2 have "(unat b mod 16 * 4 + unat c div 64) div 4 = unat b mod 16" by simp
  ultimately have "(unat a mod 4 * 16 + unat b div 16) mod 16 * 16 +
            (unat b mod 16 * 4 + unat c div 64) div 4 = unat b" by simp
  then show ?thesis by simp
qed

lemma byte2_pad:
  fixes a b :: byte
  shows "(of_nat ((unat a mod 4 * 16 + unat b div 16) mod 16 * 16 +
            (unat b mod 16 * 4) div 4) :: byte) = b"
proof -
  have 1: "unat b div 16 < 16" using byte_lt [of b] by simp
  from 1 have "(unat a mod 4 * 16 + unat b div 16) mod 16 = unat b div 16" by simp
  then have "(unat a mod 4 * 16 + unat b div 16) mod 16 * 16 +
            (unat b mod 16 * 4) div 4 = unat b" by simp
  then show ?thesis by simp
qed

lemma byte3:
  fixes b c :: byte
  shows "(of_nat ((unat b mod 16 * 4 + unat c div 64) mod 4 * 64 + unat c mod 64) :: byte) = c"
proof -
  have 2: "unat c div 64 < 4" using byte_lt [of c] by simp
  then have "(unat b mod 16 * 4 + unat c div 64) mod 4 = unat c div 64" by simp
  then have "(unat b mod 16 * 4 + unat c div 64) mod 4 * 64 + unat c mod 64 = unat c" by simp
  then show ?thesis by simp
qed

lemma a2b_step:
  assumes "v < 64"
  shows "a2b_base64 q l p out (b64_char v # cs) =
     (if q = 0 then a2b_base64 1 v 0 out cs
      else if q = 1 then a2b_base64 2 (v mod 16) 0 (out @ [of_nat (l * 4 + v div 16)]) cs
      else if q = 2 then a2b_base64 3 (v mod 4) 0 (out @ [of_nat (l * 16 + v div 4)]) cs
      else a2b_base64 0 0 0 (out @ [of_nat (l * 64 + v)]) cs)"
  using b64_value_char [OF assms] b64_char_not_pad [OF assms] by simp

lemma a2b_q0: "v < 64 \<Longrightarrow> a2b_base64 0 l p out (b64_char v # cs) = a2b_base64 1 v 0 out cs"
  by (simp add: a2b_step del: a2b_base64.simps(2))

lemma a2b_q1:
  "v < 64 \<Longrightarrow> a2b_base64 1 l p out (b64_char v # cs) =
     a2b_base64 2 (v mod 16) 0 (out @ [of_nat (l * 4 + v div 16)]) cs"
  by (simp add: a2b_step del: a2b_base64.simps(2))

lemma a2b_q2:
  "v < 64 \<Longrightarrow> a2b_base64 2 l p out (b64_char v # cs) =
     a2b_base64 3 (v mod 4) 0 (out @ [of_nat (l * 16 + v div 4)]) cs"
  by (simp add: a2b_step del: a2b_base64.simps(2))

lemma a2b_q3:
  "v < 64 \<Longrightarrow> a2b_base64 3 l p out (b64_char v # cs) =
     a2b_base64 0 0 0 (out @ [of_nat (l * 64 + v)]) cs"
  by (simp add: a2b_step del: a2b_base64.simps(2))

lemma a2b_pad2: "a2b_base64 2 l 0 out (CHR ''='' # CHR ''='' # cs) = Inr out"
  by simp

lemma a2b_pad3: "a2b_base64 3 l 0 out (CHR ''='' # cs) = Inr out"
  by simp

lemma a2b_encode: "a2b_base64 0 l p out (b64encode bs) = Inr (out @ bs)"
proof (induction bs arbitrary: l p out rule: b64encode.induct)
  case 1
  then show ?case by simp
next
  case (2 a)
  have "a2b_base64 0 l p out (b64encode [a]) = Inr (out @ [a])"
    by (simp only: b64encode.simps a2b_q0 a2b_q1 a2b_pad2 sextets byte1_pad)
  then show ?case .
next
  case (3 a b)
  have "a2b_base64 0 l p out (b64encode [a, b]) = Inr ((out @ [a]) @ [b])"
    by (simp only: b64encode.simps a2b_q0 a2b_q1 a2b_q2 a2b_pad3 sextets byte1 byte2_pad)
  then show ?case by simp
next
  case (4 a b c bs)
  have "a2b_base64 0 l p out (b64encode (a # b # c # bs)) = Inr ((((out @ [a]) @ [b]) @ [c]) @ bs)"
    by (simp only: b64encode.simps append.simps a2b_q0 a2b_q1 a2b_q2 a2b_q3 sextets
        byte1 byte2 byte3 "4.IH")
  then show ?case by simp
qed

lemma b64encode_ascii: "\<not> list_ex (\<lambda>c. (of_char c :: nat) \<ge> 128) (b64encode bs)"
  by (induction bs rule: b64encode.induct)
     (simp_all add: b64_char_ascii sextets not_le)

lemma b64_roundtrip: "b64decode (b64encode bs) = Inr bs"
  using a2b_encode [of 0 0 "[]" bs] by (simp add: b64decode_def b64encode_ascii)

lemma b64encode_nonempty: "bs \<noteq> [] \<Longrightarrow> b64encode bs \<noteq> []"
  by (induction bs rule: b64encode.induct) simp_all

subsection \<open>The body through the tunnel and back\<close>

lemma client_body_encoded:
  "client_body (if body \<noteq> [] then Some (b64encode body) else None) =
     Inr (if body \<noteq> [] then Some body else None)"
  by (simp add: client_body_def b64_roundtrip b64encode_nonempty)

lemma connector_reply_echo:
  "connector_reply (echo_server hs) local_base ((build_payload req rest)\<lparr>correlation_id := cid\<rparr>) =
     Inr (echo_reply hs cid (req_body req))"
  by (simp add: connector_reply_def forward_request_to_local_def build_payload_def
      client_body_encoded echo_server_def echo_reply_def Let_def)

lemma decode_encoded: "decode_body (Some (encode_content body)) = Inr body"
  by (simp add: encode_content_def b64_roundtrip b64encode_nonempty)

lemma header_dict_strs:
  "\<exists>hs'. header_dict (Some (JObj (map (\<lambda>(k, v). (k, JStr v)) d))) = Inr hs'"
  by (simp add: list_all_iff split_beta)

lemma render_echo:
  "\<exists>hs'. render_response (echo_reply hs cid body) =
      Inr \<lparr>status_code = 200, resp_headers = hs', content = body\<rparr>"
proof -
  obtain hs' where h: "header_dict (Some (JObj (map (\<lambda>(k, v). (k, JStr v))
      (foldl (\<lambda>d (k, v). AList.update k v d) [] hs)))) = Inr hs'"
    using header_dict_strs by blast
  have "render_response (echo_reply hs cid body) =
      Inr \<lparr>status_code = 200, resp_headers = hs', content = body\<rparr>"
    using h decode_encoded [of body]
    by (simp add: render_response_def echo_reply_def del: header_dict.simps decode_body.simps)
  then show ?thesis by blast
qed

lemma uuid4_hex_nonempty: "uuid4_hex u \<noteq> []"
  by (simp add: uuid4_hex_def)

lemma tunnel_of_socket_cong:
  "route_to_tunnel w' = route_to_tunnel w \<Longrightarrow>
   (\<And>t. websocket (tunnels w' t) = websocket (tunnels w t)) \<Longrightarrow>
   tunnel_of_socket w' s = tunnel_of_socket w s"
  by (simp add: tunnel_of_socket_def)

lemma message_delivered:
  assumes "tunnel_of_socket w s = Some t"
    and "map_of (pending (tunnels w t)) cid = Some pr"
    and "futures w (future pr) = FPending"
    and "cid \<noteq> []"
  shows "handle_client_message w s (echo_reply hs cid body) =
           Inr (w\<lparr>futures := (futures w)(future pr := FResult (echo_reply hs cid body))\<rparr>)"
  using assms by (simp add: handle_client_message_def echo_reply_def)

text \<open>
  C8. A public request with body \<open>B\<close> is forwarded to a route attached to socket \<open>s\<close>; the
  tunnel client behind the socket decodes the body of the request frame, gets it back
  from an echoing local server and answers with a \<^verbatim>\<open>response\<close> frame; the forwarder
  renders that frame. The public response has status 200 and its body is \<open>B\<close>, byte for
  byte, for every byte string \<open>B\<close>, the empty one included.
\<close>

theorem echo_roundtrip:
  assumes "get_tunnel w r = Some t" and "connected (tunnels w t)"
    and "websocket (tunnels w t) = Some s" and "send_error (sockets w s) = None"
    and "tunnel_of_socket w s = Some t"
  shows "\<exists>hs'. fst (forward_request (client_answers (echo_server hs) local_base s) others2
                     w req r rest_of_path u) =
           Inr \<lparr>status_code = 200, resp_headers = hs', content = req_body req\<rparr>"
proof -
  let ?p = "build_payload req rest_of_path"
  let ?cid = "uuid4_hex u"
  let ?p' = "?p\<lparr>correlation_id := ?cid\<rparr>"
  let ?f = "next_future w"
  let ?m = "echo_reply hs ?cid (req_body req)"
  define w1 where "w1 = w\<lparr>futures := (futures w)(?f := FPending), next_future := Suc ?f,
                tunnels := (tunnels w)(t := (tunnels w t)\<lparr>pending :=
                   AList.update ?cid \<lparr>future = ?f, requested_at = clock w\<rparr> (pending (tunnels w t))\<rparr>)\<rparr>"
  define w2 where "w2 = w1\<lparr>sockets := (sockets w1)(s := (sockets w1 s)\<lparr>sent :=
                   sent (sockets w1 s) @ [RequestFrame ?p']\<rparr>)\<rparr>"
  define w3 where "w3 = w2\<lparr>futures := (futures w2)(?f := FResult ?m)\<rparr>"
  have c: "correlation_id ?p = []" by (simp add: build_payload_def)
  have reg: "ingress_register w r ?p u = Inr (s, ?cid, ?f, ?p', w1)"
    using register_attached [OF assms(1-3), of ?p u] by (simp add: c w1_def)
  have wr: "send_json w1 s (RequestFrame ?p') = Inr w2"
    using assms(4) by (simp add: send_json_def w1_def w2_def)
  have ts: "tunnel_of_socket w2 s = Some t"
    using assms(5) tunnel_of_socket_cong [of w2 w s] by (simp add: w1_def w2_def)
  have pe: "map_of (pending (tunnels w2 t)) ?cid = Some \<lparr>future = ?f, requested_at = clock w\<rparr>"
    by (simp add: update_conv' w1_def w2_def)
  have fp: "futures w2 (future \<lparr>future = ?f, requested_at = clock w\<rparr>) = FPending"
    by (simp add: w1_def w2_def)
  have del: "handle_client_message w2 s ?m = Inr w3"
    unfolding w3_def
    using message_delivered [OF ts pe fp uuid4_hex_nonempty, of hs "req_body req"] by simp
  have lastfr: "rev (sent (sockets w2 s)) = RequestFrame ?p' # rev (sent (sockets w1 s))"
    by (simp add: w2_def)
  have ca: "client_answers (echo_server hs) local_base s w2 = w3"
    by (simp add: client_answers_def lastfr connector_reply_echo del)
  have w: "wait_for w3 ?f = (Inr ?m, w3)"
    by (simp add: wait_for_def w3_def)
  have "fst (send_ingress_request (client_answers (echo_server hs) local_base s) others2 w r ?p u) =
          Inr ?m"
    by (simp add: send_ingress_request_def reg wr ca w)
  then have "fst (forward_request (client_answers (echo_server hs) local_base s) others2
                     w req r rest_of_path u) = render_response ?m"
    by (simp add: fst_forward_request)
  with render_echo [of hs ?cid "req_body req"] show ?thesis by simp
qed

theorem echo_roundtrip_witness:
  "get_tunnel world_attached ''svc'' = Some 0 \<and> connected (tunnels world_attached 0) \<and>
   websocket (tunnels world_attached 0) = Some 5 \<and> send_error (sockets world_attached 5) = None \<and>
   tunnel_of_socket world_attached 5 = Some 0 \<and>
   (\<exists>hs'. fst (forward_request
                 (client_answers (echo_server [(''content-type'', ''application/octet-stream'')])
                    ''http://localhost:3000'' 5) id
                 world_attached post_bin ''svc'' [] 0x7e1c0a9b8d2f4c3a9b6e0f1d2c3b4a59) =
      Inr \<lparr>status_code = 200, resp_headers = hs', content = [0, 1, 127, 128, 255]\<rparr>)"
proof -
  have h: "get_tunnel world_attached ''svc'' = Some 0" "connected (tunnels world_attached 0)"
    "websocket (tunnels world_attached 0) = Some 5" "send_error (sockets world_attached 5) = None"
    "tunnel_of_socket world_attached 5 = Some 0"
    by (simp_all add: get_tunnel_def tunnel_of_socket_def world_attached_def world_svc_def
        live_tunnel_def fresh_socket_def)
  have b: "req_body post_bin = [0, 1, 127, 128, 255]"
    by (simp add: post_bin_def)
  show ?thesis
    using h echo_roundtrip [OF h, of "[(''content-type'', ''application/octet-stream'')]"
        "''http://localhost:3000''" id post_bin "[]" "0x7e1c0a9b8d2f4c3a9b6e0f1d2c3b4a59"]
    unfolding b by simp
qed

subsection \<open>The headers of the request frame\<close>

lemma lower_examples:
  "lower ''Host'' = ''host''" "lower ''Connection'' = ''connection''"
  "lower ''Transfer-Encoding'' = ''transfer-encoding''" "lower ''Accept'' = ''accept''"
  by code_simp+

text \<open>
  C5, as the specification states it, fails: a request with \<^verbatim>\<open>Host\<close>, \<^verbatim>\<open>Connection\<close> and
  \<^verbatim>\<open>Transfer-Encoding\<close> headers gives a request frame that has all three, lower-cased. The
  client removes \<^verbatim>\<open>host\<close> and \<^verbatim>\<open>connection\<close> before it calls the local server;
  \<^verbatim>\<open>transfer-encoding\<close> goes through.
\<close>

theorem hop_headers_counterexample:
  "headers (build_payload req_hop []) =
     [(''host'', ''svc.example.com''), (''connection'', ''keep-alive''),
      (''transfer-encoding'', ''chunked''), (''accept'', ''text/plain'')] \<and>
   local_headers (build_payload req_hop []) =
     [(''transfer-encoding'', ''chunked''), (''accept'', ''text/plain'')]"
  by (simp add: build_payload_def req_hop_def wire_headers_def lower_examples local_headers_def)

lemma wire_headers_keys_aux:
  "fst ` set (foldl (\<lambda>d (k, v). AList.update (lower k) v d) d items) =
     fst ` set d \<union> lower ` fst ` set items"
  by (induction items arbitrary: d) (auto simp: dom_update split_beta)

lemma wire_headers_keys: "fst ` set (wire_headers items) = lower ` fst ` set items"
  by (simp add: wire_headers_def wire_headers_keys_aux)

lemma lower_char_idem: "lower_char (lower_char c) = lower_char c"
  by (auto simp: lower_char_def Let_def)

lemma lower_idem: "lower (lower s) = lower s"
  by (simp add: lower_def lower_char_idem)

lemma delete_keys_set: "fst ` set (AList.delete k al) = fst ` set al - {k}"
  by (induction al) auto

text \<open>
  C5, amended. The header names of the request frame are the lower-cased names of the
  public request, every one of them: the forwarder drops none. Each name on the frame is
  in lower case. The tunnel client passes to the local server all of them but \<^verbatim>\<open>host\<close>
  and \<^verbatim>\<open>connection\<close>.
\<close>

theorem headers_lowered_not_stripped:
  "fst ` set (headers (build_payload req rest_of_path)) = lower ` fst ` set (req_headers req) \<and>
   (\<forall>k \<in> fst ` set (headers (build_payload req rest_of_path)). lower k = k) \<and>
   fst ` set (local_headers (build_payload req rest_of_path)) =
     lower ` fst ` set (req_headers req) - {''host'', ''connection''}"
  by (auto simp: build_payload_def wire_headers_keys lower_idem local_headers_def delete_keys_set)

theorem headers_lowered_not_stripped_witness:
  "fst ` set (headers (build_payload req_hop [])) =
     {''host'', ''connection'', ''transfer-encoding'', ''accept''} \<and>
   fst ` set (local_headers (build_payload req_hop [])) = {''transfer-encoding'', ''accept''}"
  using headers_lowered_not_stripped [of req_hop "[]"]
  by (simp add: req_hop_def lower_examples)

subsection \<open>The operations stay within the reachable states\<close>

text \<open>
  The coroutines of the source, as composed from their steps, lead from reachable states
  to reachable states when the coroutines that run in between do, so the invariant holds
  after each of them.
\<close>

lemma reachable_ws_loop_except:
  "reachable w \<Longrightarrow> reachable (snd (ws_loop_except w s e))"
  by (simp add: ws_loop_except_def reachable.detach reachable.closed_socket)

lemma reachable_tunnel_ws_step:
  assumes "reachable w" shows "reachable (snd (tunnel_ws_step w s r))"
proof (cases r)
  case (RecvRaise e)
  then show ?thesis using assms by (simp add: tunnel_ws_step_def reachable_ws_loop_except)
next
  case (RecvJson m)
  show ?thesis
  proof (cases "handle_client_message w s m")
    case (Inl e)
    then show ?thesis using assms RecvJson
      by (simp add: tunnel_ws_step_def reachable_ws_loop_except)
  next
    case (Inr w')
    have "reachable w'" using assms Inr by (rule reachable.message)
    then show ?thesis using RecvJson Inr by (simp add: tunnel_ws_step_def)
  qed
qed

lemma reachable_send_ingress_request:
  assumes "reachable w" and "\<And>w. reachable w \<Longrightarrow> reachable (others1 w)"
    and "\<And>w. reachable w \<Longrightarrow> reachable (others2 w)"
  shows "reachable (snd (send_ingress_request others1 others2 w r p u))"
proof (cases "ingress_register w r p u")
  case (Inl e)
  then show ?thesis using assms(1) by (simp add: send_ingress_request_def)
next
  case (Inr x)
  then obtain s cid f p' w1 where reg: "ingress_register w r p u = Inr (s, cid, f, p', w1)"
    by (cases x) auto
  have w1: "reachable w1" using assms(1) reg by (rule reachable.register)
  show ?thesis
  proof (cases "send_json w1 s (RequestFrame p')")
    case (Inl e)
    then show ?thesis using w1 reg by (simp add: send_ingress_request_def)
  next
    case (Inr w2)
    have "reachable w2" using w1 Inr by (rule reachable.written)
    then have "reachable (snd (wait_for (others1 w2) f))"
      by (intro reachable.woken assms(2))
    then have "reachable (ingress_cleanup (others2 (snd (wait_for (others1 w2) f))) r cid)"
      by (intro reachable.cleanup assms(3))
    then show ?thesis using reg Inr by (simp add: send_ingress_request_def split_beta)
  qed
qed

lemma reachable_forward_request:
  assumes "reachable w" and "\<And>w. reachable w \<Longrightarrow> reachable (others1 w)"
    and "\<And>w. reachable w \<Longrightarrow> reachable (others2 w)"
  shows "reachable (snd (forward_request others1 others2 w req r rest u))"
  unfolding snd_forward_request using assms by (rule reachable_send_ingress_request)

lemma reachable_ping_one:
  assumes "reachable w" and "\<And>w. reachable w \<Longrightarrow> reachable (others w)"
    and "ping_one others w t = Inr w'"
  shows "reachable w'"
proof (cases "websocket (tunnels w t)")
  case None
  then have "w' = ping_failed (others w) t" using assms(3) by (simp add: ping_one_def)
  then show ?thesis using assms(1,2) by (simp add: reachable.ping_failure)
next
  case (Some s)
  show ?thesis
  proof (cases "send_json w s (PingFrame (clock w))")
    case (Inl e)
    then have "w' = ping_failed (others w) t"
      using assms(3) Some by (simp add: ping_one_def split: if_splits)
    then show ?thesis using assms(1,2) by (simp add: reachable.ping_failure)
  next
    case (Inr w2)
    have "reachable w2" using assms(1) Inr by (rule reachable.written)
    moreover have "w' = others w2" using assms(3) Some Inr by (simp add: ping_one_def)
    ultimately show ?thesis using assms(2) by simp
  qed
qed

lemma reachable_ping_loop:
  assumes "\<And>w. reachable w \<Longrightarrow> reachable (others w)"
  shows "reachable w \<Longrightarrow> ping_loop others ts w = Inr w' \<Longrightarrow> reachable w'"
proof (induction ts arbitrary: w)
  case Nil
  then show ?case by simp
next
  case (Cons t ts)
  from Cons.prems(2) obtain w1 where 1: "ping_one others w t = Inr w1"
    and 2: "ping_loop others ts w1 = Inr w'"
    by (auto split: sum.splits)
  have "reachable w1" using Cons.prems(1) assms 1 by (rule reachable_ping_one)
  then show ?case using 2 by (rule Cons.IH)
qed

lemma reachable_ping_connected:
  assumes "\<And>w. reachable w \<Longrightarrow> reachable (others w)"
    and "reachable w" and "ping_connected others w = Inr w'"
  shows "reachable w'"
  using reachable_ping_loop [OF assms(1) assms(2)] assms(3) by (simp add: ping_connected_def)

end
